theory Spec2Isabelle
  imports Complex_Main "HOL-Library.Multiset" "HOL-Library.Log_Nat"
begin

section \<open>The meal store of MealMax (kitchen\_model.py)\<close>

text \<open>
  The module \<^verbatim>\<open>meal_max/models/kitchen_model.py\<close> keeps meals in one SQLite table and
  offers six functions on it. Every function is embedded here as a function from the
  database before the call to the outcome of the call and the database after it. An
  exception is a value \<open>Inl e\<close>; the database after the call is returned next to it,
  because a call that raises has still issued the statements it issued before raising.

  Conventions of the embedding:
  \<^item> Python \<^verbatim>\<open>float\<close> values and SQLite \<^verbatim>\<open>REAL\<close> values are real numbers, and every
    arithmetic operation on them rounds its exact result to double precision
    (\<open>to_double\<close> below), as IEEE 754 binary64 does. Python \<^verbatim>\<open>int\<close> values and SQLite
    \<^verbatim>\<open>INTEGER\<close> values are integers. The exponent of a double and the size of an integer
    are unbounded here, so NaN, infinities, subnormal numbers and the 64-bit range of
    SQLite integers are outside the embedding.
  \<^item> The database never fails of its own accord: the only statement that is refused is an
    \<^verbatim>\<open>INSERT\<close> that breaks the uniqueness of the \<^verbatim>\<open>meal\<close> column. The handlers
    \<^verbatim>\<open>except sqlite3.Error\<close>, which log and re-raise, therefore have no branch here.
  \<^item> Calls of the logger change nothing that the functions read and are left out.
\<close>

subsection \<open>Values, errors and the table\<close>

text \<open>
  The \<^verbatim>\<open>price\<close> argument of \<^verbatim>\<open>create_meal\<close> is tested with \<^verbatim>\<open>isinstance\<close>, so the
  embedding has to say what it is when it is no number.
\<close>

datatype pyvalue = PyInt int | PyFloat real | PyStr string | PyNone

text \<open>\<^verbatim>\<open>isinstance(v, (int, float))\<close>, together with the number \<open>v\<close> then stands for.\<close>

fun number_of :: "pyvalue \<Rightarrow> real option" where
  "number_of (PyInt n) = Some (of_int n)"
| "number_of (PyFloat x) = Some x"
| "number_of (PyStr s) = None"
| "number_of PyNone = None"

text \<open>
  Every exception the module raises itself is a \<^verbatim>\<open>ValueError\<close>; the raise sites differ
  in their message. One constructor stands for one message, its arguments are the values
  formatted into it:
  \<^item> \<open>Invalid_price\<close>: ``Invalid price: \dots. Price must be a positive number.''
  \<^item> \<open>Invalid_difficulty\<close>: ``Invalid difficulty level: \dots''
  \<^item> \<open>Meal_already_exists\<close>: ``Meal with name '\dots' already exists''
  \<^item> \<open>Meal_id_deleted\<close>: ``Meal with ID \dots has been deleted''
  \<^item> \<open>Meal_id_not_found\<close>: ``Meal with ID \dots not found''
  \<^item> \<open>Meal_name_deleted\<close>: ``Meal with name \dots has been deleted''
  \<^item> \<open>Meal_name_not_found\<close>: ``Meal with name \dots not found''
  \<^item> \<open>Invalid_result\<close>: ``Invalid result: \dots. Expected 'win' or 'loss'.''
  \<^item> \<open>Invalid_sort_by\<close>: ``Invalid sort\_by parameter: \dots''
  \<^item> \<open>Price_must_be_positive\<close>: ``Price must be a positive value.''
  \<^item> \<open>Difficulty_must_be\<close>: ``Difficulty must be 'LOW', 'MED', or 'HIGH'.''
\<close>

datatype error =
    Invalid_price pyvalue
  | Invalid_difficulty string
  | Meal_already_exists string
  | Meal_id_deleted int
  | Meal_id_not_found int
  | Meal_name_deleted string
  | Meal_name_not_found string
  | Invalid_result string
  | Invalid_sort_by string
  | Price_must_be_positive
  | Difficulty_must_be

text \<open>
  Modelled from the spec: the table \<^verbatim>\<open>meals\<close>, whose schema file is not among the
  sources. Its columns are \<^verbatim>\<open>id\<close> (unique key), \<^verbatim>\<open>meal\<close> (unique text),
  \<^verbatim>\<open>cuisine\<close>, \<^verbatim>\<open>price\<close> (real), \<^verbatim>\<open>difficulty\<close>, \<^verbatim>\<open>deleted\<close> (default false),
  \<^verbatim>\<open>battles\<close> and \<^verbatim>\<open>wins\<close> (integers, default 0). The table is the list of its rows
  in the order of insertion.
\<close>

record row =
  id_col :: int
  meal_col :: string
  cuisine_col :: string
  price_col :: real
  difficulty_col :: string
  deleted_col :: bool
  battles_col :: int
  wins_col :: int

text \<open>
  The statements the module sends, one constructor for each SQL text, with its parameters.
  The leaderboard query has two texts, ending in \<^verbatim>\<open>ORDER BY win_pct DESC\<close> and in
  \<^verbatim>\<open>ORDER BY wins DESC\<close>.
\<close>

datatype ordering = By_win_pct | By_wins

datatype statement =
    Insert_meal string string pyvalue string
  | Select_deleted int
  | Update_deleted int
  | Select_leaderboard ordering
  | Select_by_id int
  | Select_by_name string
  | Update_win int
  | Update_loss int

text \<open>
  What the connection provider and the database see of a call: a connection handed out,
  a statement executed on its cursor, a commit, the connection given back.
\<close>

datatype event = Acquire | Execute statement | Commit | Release

record database =
  meals :: "row list"
  events :: "event list"

definition record_event :: "event \<Rightarrow> database \<Rightarrow> database" where
  "record_event e db = db\<lparr>events := events db @ [e]\<rparr>"

text \<open>
  Modelled from the spec: \<^verbatim>\<open>get_db_connection\<close> of \<^verbatim>\<open>meal_max.utils.sql_utils\<close>, which
  is not among the sources. Used as \<^verbatim>\<open>with get_db_connection() as conn:\<close> it hands out a
  connection for the body and releases it on every way out of the body.
\<close>

definition get_db_connection ::
  "(database \<Rightarrow> 'a \<times> database) \<Rightarrow> database \<Rightarrow> 'a \<times> database" where
  "get_db_connection body db =
     (case body (record_event Acquire db) of
        (res, db') \<Rightarrow> (res, record_event Release db'))"

text \<open>\<^verbatim>\<open>cursor.fetchone()\<close>: the first row of the result, \<^verbatim>\<open>None\<close> when there is none.\<close>

fun fetchone :: "'a list \<Rightarrow> 'a option" where
  "fetchone [] = None"
| "fetchone (x # xs) = Some x"

text \<open>
  Modelled from the spec: the id the store assigns to a new row, one more than the
  largest id in the table, and 1 in an empty table.
\<close>

definition next_id :: "row list \<Rightarrow> int" where
  "next_id rows = foldr max (map id_col rows) 0 + 1"

subsection \<open>The class Meal\<close>

record Meal =
  id_field :: int
  meal_field :: string
  cuisine_field :: string
  price_field :: real
  difficulty_field :: string

text \<open>
  \<^verbatim>\<open>Meal(id=..., meal=..., cuisine=..., price=..., difficulty=...)\<close>: the generated
  constructor followed by \<^verbatim>\<open>__post_init__\<close>, which tests \<^verbatim>\<open>self.price < 0\<close>.
\<close>

definition post_init :: "Meal \<Rightarrow> error + Meal" where
  "post_init self =
     (if price_field self < 0 then Inl Price_must_be_positive
      else if difficulty_field self \<notin> set [''LOW'', ''MED'', ''HIGH'']
      then Inl Difficulty_must_be
      else Inr self)"

definition new_Meal :: "int \<Rightarrow> string \<Rightarrow> string \<Rightarrow> real \<Rightarrow> string \<Rightarrow> error + Meal" where
  "new_Meal i m c p d =
     post_init \<lparr>id_field = i, meal_field = m, cuisine_field = c, price_field = p,
                difficulty_field = d\<rparr>"

subsection \<open>create\_meal\<close>

text \<open>
  The row an \<^verbatim>\<open>INSERT INTO meals (meal, cuisine, price, difficulty)\<close> adds: the id is
  assigned, the three remaining columns take their defaults.
\<close>

definition inserted_row :: "row list \<Rightarrow> string \<Rightarrow> string \<Rightarrow> real \<Rightarrow> string \<Rightarrow> row" where
  "inserted_row rows m c p d =
     \<lparr>id_col = next_id rows, meal_col = m, cuisine_col = c, price_col = p,
      difficulty_col = d, deleted_col = False, battles_col = 0, wins_col = 0\<rparr>"

definition create_meal ::
  "string \<Rightarrow> string \<Rightarrow> pyvalue \<Rightarrow> string \<Rightarrow> database \<Rightarrow> (error + unit) \<times> database" where
  "create_meal meal cuisine price difficulty db =
     (case number_of price of
        None \<Rightarrow> (Inl (Invalid_price price), db)
      | Some p \<Rightarrow>
          if p \<le> 0 then (Inl (Invalid_price price), db)
          else if difficulty \<notin> set [''LOW'', ''MED'', ''HIGH'']
          then (Inl (Invalid_difficulty difficulty), db)
          else get_db_connection (\<lambda>conn.
            let conn = record_event (Execute (Insert_meal meal cuisine price difficulty)) conn
            in if meal \<in> set (map meal_col (meals conn))
               then (Inl (Meal_already_exists meal), conn)
               else (Inr (),
                 record_event Commit
                   (conn\<lparr>meals := meals conn
                        @ [inserted_row (meals conn) meal cuisine p difficulty]\<rparr>))) db)"

subsection \<open>delete\_meal\<close>

text \<open>\<^verbatim>\<open>SELECT deleted FROM meals WHERE id = ?\<close>\<close>

definition select_deleted :: "int \<Rightarrow> row list \<Rightarrow> bool list" where
  "select_deleted i rows = map deleted_col (filter (\<lambda>r. id_col r = i) rows)"

text \<open>\<^verbatim>\<open>UPDATE meals SET deleted = TRUE WHERE id = ?\<close>\<close>

definition update_deleted :: "int \<Rightarrow> row list \<Rightarrow> row list" where
  "update_deleted i rows =
     map (\<lambda>r. if id_col r = i then r\<lparr>deleted_col := True\<rparr> else r) rows"

text \<open>
  \<^verbatim>\<open>cursor.fetchone()[0]\<close> raises \<^verbatim>\<open>TypeError\<close> on \<^verbatim>\<open>None\<close>, which the inner handler
  turns into ``not found''; the \<^verbatim>\<open>ValueError\<close> raised for a deleted meal passes that
  handler.
\<close>

definition delete_meal :: "int \<Rightarrow> database \<Rightarrow> (error + unit) \<times> database" where
  "delete_meal meal_id db =
     get_db_connection (\<lambda>conn.
       let conn = record_event (Execute (Select_deleted meal_id)) conn
       in case fetchone (select_deleted meal_id (meals conn)) of
            None \<Rightarrow> (Inl (Meal_id_not_found meal_id), conn)
          | Some deleted \<Rightarrow>
              if deleted then (Inl (Meal_id_deleted meal_id), conn)
              else (Inr (),
                record_event Commit
                  (record_event (Execute (Update_deleted meal_id))
                     (conn\<lparr>meals := update_deleted meal_id (meals conn)\<rparr>)))) db"

subsection \<open>Double precision\<close>

text \<open>The nearest integer, a tie going to the even one.\<close>

definition round_half_even :: "real \<Rightarrow> int" where
  "round_half_even y =
     (let f = \<lfloor>y\<rfloor>; d = y - of_int f
      in if d < 1 / 2 then f
         else if 1 / 2 < d then f + 1
         else if even f then f else f + 1)"

text \<open>
  For \<open>x > 0\<close> the integer \<open>e\<close> with \<open>2 ^ e \<le> x < 2 ^ (e + 1)\<close>, computed from the
  number of binary digits of the integer part of \<open>x\<close> or of \<open>1 / x\<close>.
\<close>

definition binary_exponent :: "real \<Rightarrow> int" where
  "binary_exponent x =
     (if 1 \<le> x then int (floorlog 2 (nat \<lfloor>x\<rfloor>)) - 1
      else - int (floorlog 2 (nat (\<lceil>1 / x\<rceil> - 1))))"

text \<open>
  The distance between neighbouring doubles at \<open>x\<close>: a double has 53 significant binary
  digits.
\<close>

definition ulp :: "real \<Rightarrow> real" where
  "ulp x =
     (let k = binary_exponent \<bar>x\<bar> - 52
      in if 0 \<le> k then 2 ^ nat k else 1 / 2 ^ nat (- k))"

text \<open>Rounding to the nearest double, a tie going to the double with the even last digit.\<close>

definition to_double :: "real \<Rightarrow> real" where
  "to_double x = (if x = 0 then 0 else real_of_int (round_half_even (x / ulp x)) * ulp x)"

text \<open>The conversion of an integer to a double, and the product and quotient of two doubles.\<close>

definition double_of_int :: "int \<Rightarrow> real" where
  "double_of_int n = to_double (real_of_int n)"

definition double_mul :: "real \<Rightarrow> real \<Rightarrow> real" where
  "double_mul x y = to_double (x * y)"

definition double_div :: "real \<Rightarrow> real \<Rightarrow> real" where
  "double_div x y = to_double (x / y)"

subsection \<open>get\_leaderboard\<close>

text \<open>
  A row of the leaderboard query, in the order of its columns: \<^verbatim>\<open>id, meal, cuisine,
  price, difficulty, battles, wins, (wins * 1.0 / battles) AS win_pct\<close>.
\<close>

type_synonym leaderboard_row = "int \<times> string \<times> string \<times> real \<times> string \<times> int \<times> int \<times> real"

text \<open>
  The expression \<^verbatim>\<open>wins * 1.0 / battles\<close>: SQLite converts the integer \<^verbatim>\<open>wins\<close> to a double
  and multiplies it by \<^verbatim>\<open>1.0\<close>, then converts \<^verbatim>\<open>battles\<close> and divides.
\<close>

definition sql_win_pct :: "int \<Rightarrow> int \<Rightarrow> real" where
  "sql_win_pct wins battles =
     double_div (double_mul (double_of_int wins) 1.0) (double_of_int battles)"

definition leaderboard_columns :: "row \<Rightarrow> leaderboard_row" where
  "leaderboard_columns r =
     (id_col r, meal_col r, cuisine_col r, price_col r, difficulty_col r,
      battles_col r, wins_col r, sql_win_pct (wins_col r) (battles_col r))"

text \<open>The column named after \<^verbatim>\<open>ORDER BY\<close>.\<close>

fun order_column :: "ordering \<Rightarrow> leaderboard_row \<Rightarrow> real" where
  "order_column By_win_pct (i, m, c, p, d, b, w, pct) = pct"
| "order_column By_wins (i, m, c, p, d, b, w, pct) = real_of_int w"

text \<open>
  \<^verbatim>\<open>SELECT ... FROM meals WHERE deleted = false AND battles > 0 ORDER BY ... DESC\<close>.
  SQL leaves the order of rows with equal keys open; here they keep the order of the
  table. The theorems below use only that the result is ordered and holds the selected
  rows, which every order of the ties satisfies.
\<close>

definition select_leaderboard :: "ordering \<Rightarrow> row list \<Rightarrow> leaderboard_row list" where
  "select_leaderboard ord rows =
     sort_key (\<lambda>t. - order_column ord t)
       (map leaderboard_columns
          (filter (\<lambda>r. deleted_col r = False \<and> battles_col r > 0) rows))"

text \<open>
  Python's \<^verbatim>\<open>round(x, 1)\<close> on a float: the exact value of \<open>x\<close> is rounded to the nearest
  multiple of one tenth, a tie going to the even multiple, and the result is the double
  nearest to that multiple.
\<close>

definition round1 :: "real \<Rightarrow> real" where
  "round1 x = to_double (real_of_int (round_half_even (x * 10)) / 10)"

text \<open>An element of the returned list: a dictionary with these eight keys.\<close>

record leaderboard_entry =
  entry_id :: int
  entry_meal :: string
  entry_cuisine :: string
  entry_price :: real
  entry_difficulty :: string
  entry_battles :: int
  entry_wins :: int
  entry_win_pct :: real

fun entry_of_row :: "leaderboard_row \<Rightarrow> leaderboard_entry" where
  "entry_of_row (i, m, c, p, d, b, w, pct) =
     \<lparr>entry_id = i, entry_meal = m, entry_cuisine = c, entry_price = p,
      entry_difficulty = d, entry_battles = b, entry_wins = w,
      entry_win_pct = round1 (double_mul pct (double_of_int 100))\<rparr>"

text \<open>Lines 159 to 180: run the query that was built, then turn each row into an entry.\<close>

definition fetch_leaderboard ::
  "ordering \<Rightarrow> database \<Rightarrow> (error + leaderboard_entry list) \<times> database" where
  "fetch_leaderboard ord db =
     (case get_db_connection (\<lambda>conn.
             let conn = record_event (Execute (Select_leaderboard ord)) conn
             in (select_leaderboard ord (meals conn), conn)) db of
        (rows, db') \<Rightarrow> (Inr (map entry_of_row rows), db'))"

definition get_leaderboard ::
  "string \<Rightarrow> database \<Rightarrow> (error + leaderboard_entry list) \<times> database" where
  "get_leaderboard sort_by db =
     (if sort_by = ''win_pct'' then fetch_leaderboard By_win_pct db
      else if sort_by = ''wins'' then fetch_leaderboard By_wins db
      else (Inl (Invalid_sort_by sort_by), db))"

subsection \<open>get\_meal\_by\_id and get\_meal\_by\_name\<close>

text \<open>A row of \<^verbatim>\<open>SELECT id, meal, cuisine, price, difficulty, deleted FROM meals\<close>.\<close>

type_synonym meal_row = "int \<times> string \<times> string \<times> real \<times> string \<times> bool"

definition meal_columns :: "row \<Rightarrow> meal_row" where
  "meal_columns r =
     (id_col r, meal_col r, cuisine_col r, price_col r, difficulty_col r, deleted_col r)"

definition select_by_id :: "int \<Rightarrow> row list \<Rightarrow> meal_row list" where
  "select_by_id i rows = map meal_columns (filter (\<lambda>r. id_col r = i) rows)"

definition select_by_name :: "string \<Rightarrow> row list \<Rightarrow> meal_row list" where
  "select_by_name n rows = map meal_columns (filter (\<lambda>r. meal_col r = n) rows)"

definition get_meal_by_id :: "int \<Rightarrow> database \<Rightarrow> (error + Meal) \<times> database" where
  "get_meal_by_id meal_id db =
     get_db_connection (\<lambda>conn.
       let conn = record_event (Execute (Select_by_id meal_id)) conn
       in case fetchone (select_by_id meal_id (meals conn)) of
            Some (i, m, c, p, d, deleted) \<Rightarrow>
              if deleted then (Inl (Meal_id_deleted meal_id), conn)
              else (new_Meal i m c p d, conn)
          | None \<Rightarrow> (Inl (Meal_id_not_found meal_id), conn)) db"

definition get_meal_by_name :: "string \<Rightarrow> database \<Rightarrow> (error + Meal) \<times> database" where
  "get_meal_by_name meal_name db =
     get_db_connection (\<lambda>conn.
       let conn = record_event (Execute (Select_by_name meal_name)) conn
       in case fetchone (select_by_name meal_name (meals conn)) of
            Some (i, m, c, p, d, deleted) \<Rightarrow>
              if deleted then (Inl (Meal_name_deleted meal_name), conn)
              else (new_Meal i m c p d, conn)
          | None \<Rightarrow> (Inl (Meal_name_not_found meal_name), conn)) db"

subsection \<open>update\_meal\_stats\<close>

text \<open>\<^verbatim>\<open>UPDATE meals SET battles = battles + 1, wins = wins + 1 WHERE id = ?\<close>\<close>

definition update_win :: "int \<Rightarrow> row list \<Rightarrow> row list" where
  "update_win i rows =
     map (\<lambda>r. if id_col r = i
              then r\<lparr>battles_col := battles_col r + 1, wins_col := wins_col r + 1\<rparr>
              else r) rows"

text \<open>\<^verbatim>\<open>UPDATE meals SET battles = battles + 1 WHERE id = ?\<close>\<close>

definition update_loss :: "int \<Rightarrow> row list \<Rightarrow> row list" where
  "update_loss i rows =
     map (\<lambda>r. if id_col r = i then r\<lparr>battles_col := battles_col r + 1\<rparr> else r) rows"

definition update_meal_stats :: "int \<Rightarrow> string \<Rightarrow> database \<Rightarrow> (error + unit) \<times> database" where
  "update_meal_stats meal_id result db =
     get_db_connection (\<lambda>conn.
       let conn = record_event (Execute (Select_deleted meal_id)) conn
       in case fetchone (select_deleted meal_id (meals conn)) of
            None \<Rightarrow> (Inl (Meal_id_not_found meal_id), conn)
          | Some deleted \<Rightarrow>
              if deleted then (Inl (Meal_id_deleted meal_id), conn)
              else if result = ''win''
              then (Inr (),
                record_event Commit
                  (record_event (Execute (Update_win meal_id))
                     (conn\<lparr>meals := update_win meal_id (meals conn)\<rparr>)))
              else if result = ''loss''
              then (Inr (),
                record_event Commit
                  (record_event (Execute (Update_loss meal_id))
                     (conn\<lparr>meals := update_loss meal_id (meals conn)\<rparr>)))
              else (Inl (Invalid_result result), conn)) db"

subsection \<open>Sequences of calls\<close>

text \<open>
  The module's public functions with their arguments, and the database a caller leaves
  behind who makes a sequence of such calls on a fresh database, whatever each call
  returns or raises.
\<close>

datatype call =
    Create_meal string string pyvalue string
  | Delete_meal int
  | Get_leaderboard string
  | Get_meal_by_id int
  | Get_meal_by_name string
  | Update_meal_stats int string

fun after_call :: "database \<Rightarrow> call \<Rightarrow> database" where
  "after_call db (Create_meal m c p d) = snd (create_meal m c p d db)"
| "after_call db (Delete_meal i) = snd (delete_meal i db)"
| "after_call db (Get_leaderboard s) = snd (get_leaderboard s db)"
| "after_call db (Get_meal_by_id i) = snd (get_meal_by_id i db)"
| "after_call db (Get_meal_by_name n) = snd (get_meal_by_name n db)"
| "after_call db (Update_meal_stats i r) = snd (update_meal_stats i r db)"

definition empty_database :: database where
  "empty_database = \<lparr>meals = [], events = []\<rparr>"

definition after_calls :: "call list \<Rightarrow> database" where
  "after_calls cs = foldl after_call empty_database cs"

subsection \<open>Sample data\<close>

text \<open>
  The two meals of the test fixtures with the statistics of the leaderboard test, and a
  third meal that has been deleted.
\<close>

definition manti :: row where
  "manti = \<lparr>id_col = 1, meal_col = ''Manti'', cuisine_col = ''Turkish'', price_col = 12.99,
            difficulty_col = ''MED'', deleted_col = False, battles_col = 10, wins_col = 8\<rparr>"

definition sushi_roll :: row where
  "sushi_roll = \<lparr>id_col = 2, meal_col = ''Sushi Roll'', cuisine_col = ''Japanese'',
                 price_col = 15.99, difficulty_col = ''HIGH'', deleted_col = False,
                 battles_col = 8, wins_col = 6\<rparr>"

definition pizza :: row where
  "pizza = \<lparr>id_col = 3, meal_col = ''Pizza'', cuisine_col = ''Italian'', price_col = 9.5,
            difficulty_col = ''LOW'', deleted_col = True, battles_col = 4, wins_col = 4\<rparr>"

definition sample_database :: database where
  "sample_database = \<lparr>meals = [manti, sushi_roll, pizza], events = []\<rparr>"

text \<open>
  A table for the leaderboard: the rows in another order, with a meal that has not fought
  yet.
\<close>

definition ramen :: row where
  "ramen = \<lparr>id_col = 4, meal_col = ''Ramen'', cuisine_col = ''Japanese'', price_col = 11,
            difficulty_col = ''MED'', deleted_col = False, battles_col = 0, wins_col = 0\<rparr>"

definition leaderboard_database :: database where
  "leaderboard_database = \<lparr>meals = [sushi_roll, ramen, pizza, manti], events = []\<rparr>"

text \<open>A meal with 23 wins in 80 battles, alone in its table.\<close>

definition borek :: row where
  "borek = \<lparr>id_col = 5, meal_col = ''Borek'', cuisine_col = ''Turkish'', price_col = 6.5,
            difficulty_col = ''LOW'', deleted_col = False, battles_col = 80, wins_col = 23\<rparr>"

definition borek_database :: database where
  "borek_database = \<lparr>meals = [borek], events = []\<rparr>"

section \<open>Properties\<close>

subsection \<open>Looking a row up\<close>

lemmas conn_defs = get_db_connection_def record_event_def Let_def

lemmas sample_defs = sample_database_def manti_def sushi_roll_def pizza_def

lemma fetchone_map: "fetchone (map f xs) = map_option f (fetchone xs)"
  by (cases xs) simp_all

lemma fetchone_filter_None: "(fetchone (filter P xs) = None) = (\<forall>x\<in>set xs. \<not> P x)"
  by (induction xs) auto

lemma fetchone_filter_Some: "fetchone (filter P xs) = Some x \<Longrightarrow> x \<in> set xs \<and> P x"
  by (induction xs) (auto split: if_splits)

lemma fetchone_filter_exists: "x \<in> set xs \<Longrightarrow> P x \<Longrightarrow> \<exists>y. fetchone (filter P xs) = Some y"
  by (induction xs) auto

text \<open>No row has the id: the lookup of the deleted flag finds nothing.\<close>

lemma lookup_absent:
  "\<forall>r\<in>set rows. id_col r \<noteq> i \<Longrightarrow> fetchone (select_deleted i rows) = None"
  by (simp add: select_deleted_def fetchone_map fetchone_filter_None)

text \<open>
  Some row has the id and every row with the id has the flag \<open>b\<close>: the lookup finds
  \<open>b\<close>. When ids are unique this says that the row with the id has the flag \<open>b\<close>.
\<close>

lemma lookup_present:
  assumes "r \<in> set rows" and "id_col r = i"
    and "\<forall>r'\<in>set rows. id_col r' = i \<longrightarrow> deleted_col r' = b"
  shows "fetchone (select_deleted i rows) = Some b"
proof -
  from assms(1,2) obtain y where y: "fetchone (filter (\<lambda>r. id_col r = i) rows) = Some y"
    using fetchone_filter_exists [of r rows "\<lambda>r. id_col r = i"] by auto
  from fetchone_filter_Some [OF y] assms(3) have "deleted_col y = b" by auto
  with y show ?thesis by (simp add: select_deleted_def fetchone_map)
qed

subsection \<open>The five ways through update\_meal\_stats\<close>

lemma update_meal_stats_absent:
  "fetchone (select_deleted i (meals db)) = None \<Longrightarrow>
   update_meal_stats i result db =
     (Inl (Meal_id_not_found i),
      db\<lparr>events := events db @ [Acquire, Execute (Select_deleted i), Release]\<rparr>)"
  by (simp add: update_meal_stats_def conn_defs)

lemma update_meal_stats_deleted:
  "fetchone (select_deleted i (meals db)) = Some True \<Longrightarrow>
   update_meal_stats i result db =
     (Inl (Meal_id_deleted i),
      db\<lparr>events := events db @ [Acquire, Execute (Select_deleted i), Release]\<rparr>)"
  by (simp add: update_meal_stats_def conn_defs)

lemma update_meal_stats_win:
  "fetchone (select_deleted i (meals db)) = Some False \<Longrightarrow>
   update_meal_stats i ''win'' db =
     (Inr (),
      db\<lparr>meals := update_win i (meals db),
         events := events db @ [Acquire, Execute (Select_deleted i), Execute (Update_win i),
                                Commit, Release]\<rparr>)"
  by (simp add: update_meal_stats_def conn_defs)

lemma update_meal_stats_loss:
  "fetchone (select_deleted i (meals db)) = Some False \<Longrightarrow>
   update_meal_stats i ''loss'' db =
     (Inr (),
      db\<lparr>meals := update_loss i (meals db),
         events := events db @ [Acquire, Execute (Select_deleted i), Execute (Update_loss i),
                                Commit, Release]\<rparr>)"
  by (simp add: update_meal_stats_def conn_defs)

lemma update_meal_stats_invalid:
  "fetchone (select_deleted i (meals db)) = Some False \<Longrightarrow>
   result \<noteq> ''win'' \<Longrightarrow> result \<noteq> ''loss'' \<Longrightarrow>
   update_meal_stats i result db =
     (Inl (Invalid_result result),
      db\<lparr>events := events db @ [Acquire, Execute (Select_deleted i), Release]\<rparr>)"
  by (simp add: update_meal_stats_def conn_defs)

lemma update_win_nth:
  "k < length rows \<Longrightarrow>
   update_win i rows ! k =
     (if id_col (rows ! k) = i
      then (rows ! k)\<lparr>battles_col := battles_col (rows ! k) + 1,
                      wins_col := wins_col (rows ! k) + 1\<rparr>
      else rows ! k)"
  by (simp add: update_win_def)

lemma update_loss_nth:
  "k < length rows \<Longrightarrow>
   update_loss i rows ! k =
     (if id_col (rows ! k) = i
      then (rows ! k)\<lparr>battles_col := battles_col (rows ! k) + 1\<rparr>
      else rows ! k)"
  by (simp add: update_loss_def)

subsection \<open>Claims about update\_meal\_stats\<close>

text \<open>
  C1. Let some row of the table have the id \<open>meal_id\<close> and let no row with that id be
  deleted. Then \<open>update_meal_stats meal_id ''win''\<close> returns normally, and in the table
  after the call every row with that id has \<open>battles\<close> and \<open>wins\<close> one higher than
  before and is otherwise as before, and every other row is as before. The call with
  \<open>''loss''\<close> returns normally and raises \<open>battles\<close> by one in the rows with that id,
  changing nothing else. With any other result string the call raises the
  \<^verbatim>\<open>ValueError\<close> ``Invalid result''.
\<close>

theorem update_meal_stats_counts:
  assumes "r \<in> set (meals db)" and "id_col r = meal_id"
    and "\<forall>r'\<in>set (meals db). id_col r' = meal_id \<longrightarrow> deleted_col r' = False"
  shows "fst (update_meal_stats meal_id ''win'' db) = Inr ()
       \<and> length (meals (snd (update_meal_stats meal_id ''win'' db))) = length (meals db)
       \<and> (\<forall>k < length (meals db).
            meals (snd (update_meal_stats meal_id ''win'' db)) ! k =
              (if id_col (meals db ! k) = meal_id
               then (meals db ! k)\<lparr>battles_col := battles_col (meals db ! k) + 1,
                                   wins_col := wins_col (meals db ! k) + 1\<rparr>
               else meals db ! k))
       \<and> fst (update_meal_stats meal_id ''loss'' db) = Inr ()
       \<and> length (meals (snd (update_meal_stats meal_id ''loss'' db))) = length (meals db)
       \<and> (\<forall>k < length (meals db).
            meals (snd (update_meal_stats meal_id ''loss'' db)) ! k =
              (if id_col (meals db ! k) = meal_id
               then (meals db ! k)\<lparr>battles_col := battles_col (meals db ! k) + 1\<rparr>
               else meals db ! k))
       \<and> (\<forall>result. result \<noteq> ''win'' \<and> result \<noteq> ''loss'' \<longrightarrow>
            fst (update_meal_stats meal_id result db) = Inl (Invalid_result result))"
proof -
  have found: "fetchone (select_deleted meal_id (meals db)) = Some False"
    using assms by (rule lookup_present)
  show ?thesis
    by (simp add: update_meal_stats_win [OF found] update_meal_stats_loss [OF found]
        update_meal_stats_invalid [OF found] update_win_nth update_loss_nth
        update_win_def update_loss_def)
qed

text \<open>
  On the sample data: a win of Manti (id 1, 10 battles, 8 wins) gives 11 battles and 9
  wins, a loss gives 11 battles and 8 wins, and ``draw'' is refused.
\<close>

theorem update_meal_stats_counts_witness:
  "manti \<in> set (meals sample_database) \<and> id_col manti = 1
   \<and> map deleted_col (filter (\<lambda>r'. id_col r' = 1) (meals sample_database)) = [False]
   \<and> fst (update_meal_stats 1 ''win'' sample_database) = Inr ()
   \<and> battles_col (meals (snd (update_meal_stats 1 ''win'' sample_database)) ! 0) = 11
   \<and> wins_col (meals (snd (update_meal_stats 1 ''win'' sample_database)) ! 0) = 9
   \<and> battles_col (meals (snd (update_meal_stats 1 ''loss'' sample_database)) ! 0) = 11
   \<and> wins_col (meals (snd (update_meal_stats 1 ''loss'' sample_database)) ! 0) = 8
   \<and> meals (snd (update_meal_stats 1 ''win'' sample_database)) ! 1 = sushi_roll
   \<and> fst (update_meal_stats 1 ''draw'' sample_database) = Inl (Invalid_result ''draw'')"
proof -
  have h1: "manti \<in> set (meals sample_database)"
    by (simp add: sample_defs)
  have h2: "id_col manti = 1"
    by (simp add: sample_defs)
  have h3: "\<forall>r'\<in>set (meals sample_database). id_col r' = 1 \<longrightarrow> deleted_col r' = False"
    by (simp add: sample_defs)
  have len: "(0::nat) < length (meals sample_database)" "(1::nat) < length (meals sample_database)"
    by (simp_all add: sample_defs)
  from update_meal_stats_counts [OF h1 h2 h3] len h1 h2 show ?thesis
    by (simp add: sample_defs)
qed

text \<open>With a result string that is neither of the two, every way through the function is one of three.\<close>

lemma update_meal_stats_events_invalid:
  assumes "result \<noteq> ''win''" and "result \<noteq> ''loss''"
  shows "events (snd (update_meal_stats i result db)) =
           events db @ [Acquire, Execute (Select_deleted i), Release]
       \<and> meals (snd (update_meal_stats i result db)) = meals db"
proof (cases "fetchone (select_deleted i (meals db))")
  case None
  then show ?thesis by (simp add: update_meal_stats_absent)
next
  case (Some deleted)
  show ?thesis
  proof (cases deleted)
    case True
    with Some show ?thesis by (simp add: update_meal_stats_deleted)
  next
    case False
    with Some assms show ?thesis by (simp add: update_meal_stats_invalid)
  qed
qed

text \<open>Whatever the result string is, the first thing the call does is the lookup.\<close>

lemma update_meal_stats_events_begin:
  "\<exists>rest. events (snd (update_meal_stats i result db)) =
     events db @ Acquire # Execute (Select_deleted i) # rest"
proof (cases "fetchone (select_deleted i (meals db))")
  case None
  then show ?thesis by (simp add: update_meal_stats_absent)
next
  case (Some deleted)
  show ?thesis
  proof (cases deleted)
    case True
    with Some show ?thesis by (simp add: update_meal_stats_deleted)
  next
    case False
    with Some have found: "fetchone (select_deleted i (meals db)) = Some False" by simp
    consider "result = ''win''" | "result = ''loss''"
      | "result \<noteq> ''win''" "result \<noteq> ''loss''" by blast
    then show ?thesis
    proof cases
      case 1
      then show ?thesis by (simp add: update_meal_stats_win [OF found])
    next
      case 2
      then show ?thesis by (simp add: update_meal_stats_loss [OF found])
    next
      case 3
      then show ?thesis by (simp add: update_meal_stats_invalid [OF found])
    qed
  qed
qed

text \<open>
  C6. The lookup of the deleted flag runs before the result string is looked at.
  \<^item> For every id and every result string, valid or not, the events of the call begin
    with acquiring a connection and executing the lookup.
  \<^item> For every result string the call raises ``not found'' when no row has the id and
    ``has been deleted'' when the rows with the id are deleted, and the lookup is then
    the only statement it has executed.
  \<^item> With a result string other than \<open>''win''\<close> and \<open>''loss''\<close> the call executes the
    lookup and nothing else, whatever the id is, and it raises ``Invalid result'' only
    when some row has the id and the rows with the id are not deleted.
\<close>

theorem update_meal_stats_lookup_first:
  "(\<exists>rest. events (snd (update_meal_stats meal_id result db)) =
       events db @ Acquire # Execute (Select_deleted meal_id) # rest)
   \<and> ((\<forall>r\<in>set (meals db). id_col r \<noteq> meal_id) \<longrightarrow>
        fst (update_meal_stats meal_id result db) = Inl (Meal_id_not_found meal_id)
        \<and> events (snd (update_meal_stats meal_id result db)) =
            events db @ [Acquire, Execute (Select_deleted meal_id), Release])
   \<and> ((\<exists>r\<in>set (meals db). id_col r = meal_id) \<and>
       (\<forall>r\<in>set (meals db). id_col r = meal_id \<longrightarrow> deleted_col r = True) \<longrightarrow>
        fst (update_meal_stats meal_id result db) = Inl (Meal_id_deleted meal_id)
        \<and> events (snd (update_meal_stats meal_id result db)) =
            events db @ [Acquire, Execute (Select_deleted meal_id), Release])
   \<and> (result \<noteq> ''win'' \<and> result \<noteq> ''loss'' \<longrightarrow>
        events (snd (update_meal_stats meal_id result db)) =
          events db @ [Acquire, Execute (Select_deleted meal_id), Release]
        \<and> ((\<exists>r\<in>set (meals db). id_col r = meal_id) \<and>
            (\<forall>r\<in>set (meals db). id_col r = meal_id \<longrightarrow> deleted_col r = False) \<longrightarrow>
             fst (update_meal_stats meal_id result db) = Inl (Invalid_result result)))"
proof -
  have absent: "fst (update_meal_stats meal_id result db) = Inl (Meal_id_not_found meal_id)
      \<and> events (snd (update_meal_stats meal_id result db)) =
          events db @ [Acquire, Execute (Select_deleted meal_id), Release]"
    if "\<forall>r\<in>set (meals db). id_col r \<noteq> meal_id"
    using lookup_absent [OF that] by (simp add: update_meal_stats_absent)
  have deleted: "fst (update_meal_stats meal_id result db) = Inl (Meal_id_deleted meal_id)
      \<and> events (snd (update_meal_stats meal_id result db)) =
          events db @ [Acquire, Execute (Select_deleted meal_id), Release]"
    if "r \<in> set (meals db)" and "id_col r = meal_id"
      and "\<forall>r\<in>set (meals db). id_col r = meal_id \<longrightarrow> deleted_col r = True" for r
    using lookup_present [OF that] by (simp add: update_meal_stats_deleted)
  have trace: "events (snd (update_meal_stats meal_id result db)) =
      events db @ [Acquire, Execute (Select_deleted meal_id), Release]"
    if "result \<noteq> ''win''" and "result \<noteq> ''loss''"
    using update_meal_stats_events_invalid [OF that] by simp
  have invalid: "fst (update_meal_stats meal_id result db) = Inl (Invalid_result result)"
    if "result \<noteq> ''win''" and "result \<noteq> ''loss''"
      and "r \<in> set (meals db)" and "id_col r = meal_id"
      and "\<forall>r\<in>set (meals db). id_col r = meal_id \<longrightarrow> deleted_col r = False" for r
    using lookup_present [OF that(3-5)] that(1,2) by (simp add: update_meal_stats_invalid)
  from update_meal_stats_events_begin [of meal_id result db] absent deleted trace invalid
  show ?thesis by blast
qed

text \<open>
  On the sample data: id 7 is unknown, id 3 is deleted, ids 1 and 2 are neither; the
  lookup is the first statement for ``win'' as it is for ``draw''.
\<close>

theorem update_meal_stats_lookup_first_witness:
  "events (snd (update_meal_stats 1 ''win'' sample_database)) =
     [Acquire, Execute (Select_deleted 1), Execute (Update_win 1), Commit, Release]
   \<and> fst (update_meal_stats 7 ''win'' sample_database) = Inl (Meal_id_not_found 7)
   \<and> events (snd (update_meal_stats 7 ''win'' sample_database)) =
     [Acquire, Execute (Select_deleted 7), Release]
   \<and> fst (update_meal_stats 7 ''draw'' sample_database) = Inl (Meal_id_not_found 7)
   \<and> fst (update_meal_stats 3 ''loss'' sample_database) = Inl (Meal_id_deleted 3)
   \<and> fst (update_meal_stats 3 ''draw'' sample_database) = Inl (Meal_id_deleted 3)
   \<and> fst (update_meal_stats 2 ''draw'' sample_database) = Inl (Invalid_result ''draw'')
   \<and> events (snd (update_meal_stats 2 ''draw'' sample_database)) =
     [Acquire, Execute (Select_deleted 2), Release]"
proof -
  have bad: "''draw'' \<noteq> ''win'' \<and> ''draw'' \<noteq> ''loss''" by simp
  have a: "\<forall>r\<in>set (meals sample_database). id_col r \<noteq> 7"
    by (simp add: sample_defs)
  have d: "(\<exists>r\<in>set (meals sample_database). id_col r = 3) \<and>
      (\<forall>r\<in>set (meals sample_database). id_col r = 3 \<longrightarrow> deleted_col r = True)"
    by (simp add: sample_defs)
  have v: "(\<exists>r\<in>set (meals sample_database). id_col r = 2) \<and>
      (\<forall>r\<in>set (meals sample_database). id_col r = 2 \<longrightarrow> deleted_col r = False)"
    by (simp add: sample_defs)
  have e: "events sample_database = []" by (simp add: sample_defs)
  have win: "events (snd (update_meal_stats 1 ''win'' sample_database)) =
     [Acquire, Execute (Select_deleted 1), Execute (Update_win 1), Commit, Release]"
    by (simp add: update_meal_stats_def conn_defs select_deleted_def sample_defs)
  from update_meal_stats_lookup_first [of 7 "''win''" sample_database]
    update_meal_stats_lookup_first [of 7 "''draw''" sample_database]
    update_meal_stats_lookup_first [of 3 "''loss''" sample_database]
    update_meal_stats_lookup_first [of 3 "''draw''" sample_database]
    update_meal_stats_lookup_first [of 2 "''draw''" sample_database]
    update_meal_stats_lookup_first [of 1 "''win''" sample_database] bad a d v e win
  show ?thesis by simp
qed

text \<open>
  C10. A call of \<open>update_meal_stats\<close> that raises ``Invalid result'' leaves the table as
  it was: between acquiring and releasing the connection it has executed the lookup and
  nothing else, no \<^verbatim>\<open>UPDATE\<close> and no commit.
\<close>

theorem update_meal_stats_invalid_keeps_table:
  assumes "fst (update_meal_stats meal_id result db) = Inl (Invalid_result result)"
  shows "meals (snd (update_meal_stats meal_id result db)) = meals db
       \<and> events (snd (update_meal_stats meal_id result db)) =
           events db @ [Acquire, Execute (Select_deleted meal_id), Release]"
proof -
  have "result \<noteq> ''win'' \<and> result \<noteq> ''loss''"
    using assms
    by (auto simp: update_meal_stats_def conn_defs split: option.splits if_splits)
  then show ?thesis
    using update_meal_stats_events_invalid [of result meal_id db] by simp
qed

text \<open>On the sample data, for Manti and the result ``draw''.\<close>

theorem update_meal_stats_invalid_keeps_table_witness:
  "fst (update_meal_stats 1 ''draw'' sample_database) = Inl (Invalid_result ''draw'')
   \<and> meals (snd (update_meal_stats 1 ''draw'' sample_database)) = [manti, sushi_roll, pizza]
   \<and> events (snd (update_meal_stats 1 ''draw'' sample_database)) =
       [Acquire, Execute (Select_deleted 1), Release]"
proof -
  have h: "fst (update_meal_stats 1 ''draw'' sample_database) = Inl (Invalid_result ''draw'')"
    by (simp add: update_meal_stats_def conn_defs select_deleted_def sample_defs)
  have m: "meals sample_database = [manti, sushi_roll, pizza]" "events sample_database = []"
    by (simp_all add: sample_database_def)
  from update_meal_stats_invalid_keeps_table [OF h] h m show ?thesis by simp
qed

subsection \<open>Claims about get\_leaderboard\<close>

text \<open>
  C8. With a \<open>sort_by\<close> other than \<open>''wins''\<close> and \<open>''win_pct''\<close> the call of
  \<open>get_leaderboard\<close> raises ``Invalid sort\_by parameter'' and the database is as
  before the call, its events included: no connection was acquired and no statement
  executed.
\<close>

theorem get_leaderboard_invalid_sort_by:
  assumes "sort_by \<noteq> ''wins''" and "sort_by \<noteq> ''win_pct''"
  shows "get_leaderboard sort_by db = (Inl (Invalid_sort_by sort_by), db)"
  using assms by (simp add: get_leaderboard_def)

text \<open>On the sample data, for ``bogus''.\<close>

theorem get_leaderboard_invalid_sort_by_witness:
  "get_leaderboard ''bogus'' sample_database = (Inl (Invalid_sort_by ''bogus''), sample_database)
   \<and> events (snd (get_leaderboard ''bogus'' sample_database)) = []"
proof -
  have h: "''bogus'' \<noteq> ''wins''" "''bogus'' \<noteq> ''win_pct''" by simp_all
  from get_leaderboard_invalid_sort_by [OF h, of sample_database] show ?thesis
    by (simp add: sample_database_def)
qed

subsection \<open>The three ways through delete\_meal\<close>

lemma delete_meal_absent:
  "fetchone (select_deleted i (meals db)) = None \<Longrightarrow>
   delete_meal i db =
     (Inl (Meal_id_not_found i),
      db\<lparr>events := events db @ [Acquire, Execute (Select_deleted i), Release]\<rparr>)"
  by (simp add: delete_meal_def conn_defs)

lemma delete_meal_deleted:
  "fetchone (select_deleted i (meals db)) = Some True \<Longrightarrow>
   delete_meal i db =
     (Inl (Meal_id_deleted i),
      db\<lparr>events := events db @ [Acquire, Execute (Select_deleted i), Release]\<rparr>)"
  by (simp add: delete_meal_def conn_defs)

lemma delete_meal_ok:
  "fetchone (select_deleted i (meals db)) = Some False \<Longrightarrow>
   delete_meal i db =
     (Inr (),
      db\<lparr>meals := update_deleted i (meals db),
         events := events db @ [Acquire, Execute (Select_deleted i),
                                Execute (Update_deleted i), Commit, Release]\<rparr>)"
  by (simp add: delete_meal_def conn_defs)

lemma delete_meal_returns:
  "fst (delete_meal i db) = Inr () \<Longrightarrow> fetchone (select_deleted i (meals db)) = Some False"
  by (auto simp: delete_meal_def conn_defs split: option.splits if_splits)

lemma filter_update_deleted:
  "filter (\<lambda>r. id_col r = i) (update_deleted i rows) =
   map (\<lambda>r. r\<lparr>deleted_col := True\<rparr>) (filter (\<lambda>r. id_col r = i) rows)"
  by (induction rows) (simp_all add: update_deleted_def)

lemma select_by_id_after_delete:
  assumes "fetchone (select_deleted i rows) = Some b"
  shows "\<exists>m c p d. fetchone (select_by_id i (update_deleted i rows)) = Some (i, m, c, p, d, True)"
proof (cases "filter (\<lambda>r. id_col r = i) rows")
  case Nil
  with assms show ?thesis by (simp add: select_deleted_def)
next
  case (Cons r rs)
  then have "r \<in> set (filter (\<lambda>r. id_col r = i) rows)" by simp
  then have "id_col r = i" by simp
  with Cons show ?thesis
    by (simp add: select_by_id_def filter_update_deleted meal_columns_def)
qed

lemma get_meal_by_id_deleted:
  "fetchone (select_by_id i (meals db)) = Some (j, m, c, p, d, True) \<Longrightarrow>
   fst (get_meal_by_id i db) = Inl (Meal_id_deleted i)"
  by (simp add: get_meal_by_id_def conn_defs)

subsection \<open>Claims about delete\_meal\<close>

text \<open>
  C4. When no row of the table has the id, \<open>delete_meal\<close> raises ``not found''. When
  some row has the id and the rows with the id are deleted already, it raises ``has been
  deleted'', which is another error than ``not found''. When \<open>delete_meal\<close> returns
  normally, \<open>get_meal_by_id\<close> on the same id in the database it leaves raises ``has been
  deleted''.
\<close>

theorem delete_meal_errors:
  "((\<forall>r\<in>set (meals db). id_col r \<noteq> meal_id) \<longrightarrow>
      fst (delete_meal meal_id db) = Inl (Meal_id_not_found meal_id))
   \<and> ((\<exists>r\<in>set (meals db). id_col r = meal_id) \<and>
       (\<forall>r\<in>set (meals db). id_col r = meal_id \<longrightarrow> deleted_col r = True) \<longrightarrow>
      fst (delete_meal meal_id db) = Inl (Meal_id_deleted meal_id))
   \<and> Meal_id_deleted meal_id \<noteq> Meal_id_not_found meal_id
   \<and> (fst (delete_meal meal_id db) = Inr () \<longrightarrow>
      fst (get_meal_by_id meal_id (snd (delete_meal meal_id db))) = Inl (Meal_id_deleted meal_id))"
proof -
  have absent: "fst (delete_meal meal_id db) = Inl (Meal_id_not_found meal_id)"
    if "\<forall>r\<in>set (meals db). id_col r \<noteq> meal_id"
    using lookup_absent [OF that] by (simp add: delete_meal_absent)
  have deleted: "fst (delete_meal meal_id db) = Inl (Meal_id_deleted meal_id)"
    if "r \<in> set (meals db)" and "id_col r = meal_id"
      and "\<forall>r\<in>set (meals db). id_col r = meal_id \<longrightarrow> deleted_col r = True" for r
    using lookup_present [OF that] by (simp add: delete_meal_deleted)
  have after: "fst (get_meal_by_id meal_id (snd (delete_meal meal_id db))) =
      Inl (Meal_id_deleted meal_id)"
    if ok: "fst (delete_meal meal_id db) = Inr ()"
  proof -
    from ok have found: "fetchone (select_deleted meal_id (meals db)) = Some False"
      by (rule delete_meal_returns)
    from select_by_id_after_delete [OF found] obtain m c p d where
      "fetchone (select_by_id meal_id (update_deleted meal_id (meals db))) =
         Some (meal_id, m, c, p, d, True)"
      by blast
    then show ?thesis
      by (simp add: delete_meal_ok [OF found] get_meal_by_id_deleted)
  qed
  from absent deleted after show ?thesis by blast
qed

text \<open>On the sample data: id 7 is unknown, Pizza (id 3) is deleted, Manti (id 1) is not.\<close>

theorem delete_meal_errors_witness:
  "fst (delete_meal 7 sample_database) = Inl (Meal_id_not_found 7)
   \<and> fst (delete_meal 3 sample_database) = Inl (Meal_id_deleted 3)
   \<and> Meal_id_deleted 3 \<noteq> Meal_id_not_found 3
   \<and> fst (delete_meal 1 sample_database) = Inr ()
   \<and> fst (get_meal_by_id 1 (snd (delete_meal 1 sample_database))) = Inl (Meal_id_deleted 1)"
proof -
  have a: "\<forall>r\<in>set (meals sample_database). id_col r \<noteq> 7"
    by (simp add: sample_defs)
  have d: "(\<exists>r\<in>set (meals sample_database). id_col r = 3) \<and>
      (\<forall>r\<in>set (meals sample_database). id_col r = 3 \<longrightarrow> deleted_col r = True)"
    by (simp add: sample_defs)
  have ok: "fst (delete_meal 1 sample_database) = Inr ()"
    by (simp add: delete_meal_def conn_defs select_deleted_def sample_defs)
  from delete_meal_errors [of sample_database 7] delete_meal_errors [of sample_database 3]
    delete_meal_errors [of sample_database 1] a d ok
  show ?thesis by simp
qed

subsection \<open>The ways through create\_meal\<close>

lemma create_meal_invalid_price:
  "number_of price = Some p \<Longrightarrow> p \<le> 0 \<Longrightarrow>
   create_meal m c price d db = (Inl (Invalid_price price), db)"
  by (simp add: create_meal_def)

lemma create_meal_not_a_number:
  "number_of price = None \<Longrightarrow> create_meal m c price d db = (Inl (Invalid_price price), db)"
  by (simp add: create_meal_def)

lemma create_meal_duplicate:
  "number_of price = Some p \<Longrightarrow> 0 < p \<Longrightarrow> d \<in> set [''LOW'', ''MED'', ''HIGH''] \<Longrightarrow>
   m \<in> set (map meal_col (meals db)) \<Longrightarrow>
   create_meal m c price d db =
     (Inl (Meal_already_exists m),
      db\<lparr>events := events db @ [Acquire, Execute (Insert_meal m c price d), Release]\<rparr>)"
  by (simp add: create_meal_def conn_defs)

lemma create_meal_ok:
  "number_of price = Some p \<Longrightarrow> 0 < p \<Longrightarrow> d \<in> set [''LOW'', ''MED'', ''HIGH''] \<Longrightarrow>
   m \<notin> set (map meal_col (meals db)) \<Longrightarrow>
   create_meal m c price d db =
     (Inr (),
      db\<lparr>meals := meals db @ [inserted_row (meals db) m c p d],
         events := events db @ [Acquire, Execute (Insert_meal m c price d), Commit, Release]\<rparr>)"
  by (simp add: create_meal_def conn_defs)

subsection \<open>Claims about create\_meal\<close>

text \<open>
  C3, as stated, fails: a positive price and a valid difficulty do not make
  \<open>create_meal\<close> succeed when a row with the name exists. On the sample data, creating
  ``Manti'' once more raises ``already exists'' and inserts nothing.
\<close>

theorem create_meal_duplicate_counterexample:
  "number_of (PyFloat 12.99) = Some 12.99 \<and> (0::real) < 12.99
   \<and> ''MED'' \<in> set [''LOW'', ''MED'', ''HIGH'']
   \<and> fst (create_meal ''Manti'' ''Turkish'' (PyFloat 12.99) ''MED'' sample_database) =
       Inl (Meal_already_exists ''Manti'')
   \<and> meals (snd (create_meal ''Manti'' ''Turkish'' (PyFloat 12.99) ''MED'' sample_database)) =
       meals sample_database"
  by (simp add: create_meal_def conn_defs sample_defs)

text \<open>
  C3, amended. Let the price be a number \<open>p\<close>. When \<open>p \<le> 0\<close>, \<open>create_meal\<close> raises
  ``Invalid price'' and the database is as before, its events included: nothing was sent
  to it. When \<open>p > 0\<close>, the difficulty is one of the three levels and no row of the table
  has the name, \<open>create_meal\<close> returns normally and the table is the old one followed by
  one new row, which holds the given name, cuisine, price and difficulty, 0 battles,
  0 wins and is not deleted.
\<close>

theorem create_meal_checks:
  assumes "number_of price = Some p"
  shows "(p \<le> 0 \<longrightarrow>
            create_meal meal cuisine price difficulty db = (Inl (Invalid_price price), db))
       \<and> (0 < p \<and> difficulty \<in> set [''LOW'', ''MED'', ''HIGH'']
            \<and> meal \<notin> set (map meal_col (meals db)) \<longrightarrow>
          fst (create_meal meal cuisine price difficulty db) = Inr ()
          \<and> (\<exists>new. meals (snd (create_meal meal cuisine price difficulty db)) = meals db @ [new]
               \<and> meal_col new = meal \<and> cuisine_col new = cuisine \<and> price_col new = p
               \<and> difficulty_col new = difficulty
               \<and> battles_col new = 0 \<and> wins_col new = 0 \<and> deleted_col new = False))"
proof (intro conjI impI)
  assume "p \<le> 0"
  with assms show "create_meal meal cuisine price difficulty db = (Inl (Invalid_price price), db)"
    by (rule create_meal_invalid_price)
next
  assume valid: "0 < p \<and> difficulty \<in> set [''LOW'', ''MED'', ''HIGH'']
      \<and> meal \<notin> set (map meal_col (meals db))"
  then have eq: "create_meal meal cuisine price difficulty db =
     (Inr (),
      db\<lparr>meals := meals db @ [inserted_row (meals db) meal cuisine p difficulty],
         events := events db @ [Acquire, Execute (Insert_meal meal cuisine price difficulty),
                                Commit, Release]\<rparr>)"
    using assms create_meal_ok [of price p difficulty meal db cuisine] by blast
  show "fst (create_meal meal cuisine price difficulty db) = Inr ()"
    by (simp add: eq)
  show "\<exists>new. meals (snd (create_meal meal cuisine price difficulty db)) = meals db @ [new]
      \<and> meal_col new = meal \<and> cuisine_col new = cuisine \<and> price_col new = p
      \<and> difficulty_col new = difficulty
      \<and> battles_col new = 0 \<and> wins_col new = 0 \<and> deleted_col new = False"
    by (simp add: eq inserted_row_def)
qed

text \<open>On the sample data: the prices 0 and -5 are refused, ``Kebab'' at 7.5 becomes row 4.\<close>

theorem create_meal_checks_witness:
  "create_meal ''Kebab'' ''Turkish'' (PyInt 0) ''LOW'' sample_database =
     (Inl (Invalid_price (PyInt 0)), sample_database)
   \<and> create_meal ''Kebab'' ''Turkish'' (PyFloat (- 5)) ''LOW'' sample_database =
     (Inl (Invalid_price (PyFloat (- 5))), sample_database)
   \<and> fst (create_meal ''Kebab'' ''Turkish'' (PyFloat 7.5) ''LOW'' sample_database) = Inr ()
   \<and> meals (snd (create_meal ''Kebab'' ''Turkish'' (PyFloat 7.5) ''LOW'' sample_database)) =
       [manti, sushi_roll, pizza,
        \<lparr>id_col = 4, meal_col = ''Kebab'', cuisine_col = ''Turkish'', price_col = 7.5,
         difficulty_col = ''LOW'', deleted_col = False, battles_col = 0, wins_col = 0\<rparr>]"
proof -
  have z: "number_of (PyInt 0) = Some 0"
    and n: "number_of (PyFloat (- 5)) = Some (- 5)"
    and p: "number_of (PyFloat 7.5) = Some 7.5"
    by simp_all
  have fresh: "''Kebab'' \<notin> set (map meal_col (meals sample_database))"
    by (simp add: sample_defs)
  have new: "meals (snd (create_meal ''Kebab'' ''Turkish'' (PyFloat 7.5) ''LOW'' sample_database)) =
       [manti, sushi_roll, pizza,
        \<lparr>id_col = 4, meal_col = ''Kebab'', cuisine_col = ''Turkish'', price_col = 7.5,
         difficulty_col = ''LOW'', deleted_col = False, battles_col = 0, wins_col = 0\<rparr>]"
    by (simp add: create_meal_def conn_defs inserted_row_def next_id_def sample_defs)
  from create_meal_checks [OF z, where meal = "''Kebab''" and cuisine = "''Turkish''"
      and difficulty = "''LOW''" and db = sample_database]
    create_meal_checks [OF n, where meal = "''Kebab''" and cuisine = "''Turkish''"
      and difficulty = "''LOW''" and db = sample_database]
    create_meal_checks [OF p, where meal = "''Kebab''" and cuisine = "''Turkish''"
      and difficulty = "''LOW''" and db = sample_database]
    fresh new
  show ?thesis by simp
qed

subsection \<open>Finding the row that was inserted\<close>

lemma id_below_next_id: "r \<in> set rows \<Longrightarrow> id_col r < next_id rows"
  by (induction rows) (auto simp: next_id_def)

lemma filter_id_after_insert:
  "filter (\<lambda>r. id_col r = next_id rows) (rows @ [inserted_row rows m c p d]) =
   [inserted_row rows m c p d]"
proof -
  have "filter (\<lambda>r. id_col r = next_id rows) rows = []"
    by (fastforce simp: filter_empty_conv dest: id_below_next_id)
  then show ?thesis by (simp add: inserted_row_def)
qed

lemma filter_name_after_insert:
  assumes "m \<notin> set (map meal_col rows)"
  shows "filter (\<lambda>r. meal_col r = m) (rows @ [inserted_row rows m c p d]) =
   [inserted_row rows m c p d]"
proof -
  have "filter (\<lambda>r. meal_col r = m) rows = []"
    using assms by (auto simp: filter_empty_conv)
  then show ?thesis by (simp add: inserted_row_def)
qed

lemma new_Meal_valid:
  "0 \<le> p \<Longrightarrow> d \<in> set [''LOW'', ''MED'', ''HIGH''] \<Longrightarrow>
   new_Meal i m c p d =
     Inr \<lparr>id_field = i, meal_field = m, cuisine_field = c, price_field = p,
          difficulty_field = d\<rparr>"
  by (auto simp: new_Meal_def post_init_def)

subsection \<open>Claims about creating and retrieving\<close>

text \<open>
  C7. Let the price be a number \<open>p > 0\<close>, the difficulty one of the three levels and the
  name one that no row of the table has. Then \<open>create_meal\<close> returns normally, and in the
  database it leaves both \<open>get_meal_by_id\<close> on the id of the row that was added and
  \<open>get_meal_by_name\<close> on the name return a \<open>Meal\<close> with that id and with the name,
  cuisine, price and difficulty that were given.
\<close>

theorem create_then_get:
  assumes "number_of price = Some p" and "0 < p"
    and "difficulty \<in> set [''LOW'', ''MED'', ''HIGH'']"
    and "meal \<notin> set (map meal_col (meals db))"
  shows "fst (create_meal meal cuisine price difficulty db) = Inr ()
       \<and> fst (get_meal_by_id
                (id_col (last (meals (snd (create_meal meal cuisine price difficulty db)))))
                (snd (create_meal meal cuisine price difficulty db))) =
           Inr \<lparr>id_field = id_col (last (meals (snd (create_meal meal cuisine price difficulty db)))),
                meal_field = meal, cuisine_field = cuisine, price_field = p,
                difficulty_field = difficulty\<rparr>
       \<and> fst (get_meal_by_name meal (snd (create_meal meal cuisine price difficulty db))) =
           Inr \<lparr>id_field = id_col (last (meals (snd (create_meal meal cuisine price difficulty db)))),
                meal_field = meal, cuisine_field = cuisine, price_field = p,
                difficulty_field = difficulty\<rparr>"
proof -
  have created: "create_meal meal cuisine price difficulty db =
     (Inr (),
      db\<lparr>meals := meals db @ [inserted_row (meals db) meal cuisine p difficulty],
         events := events db @ [Acquire, Execute (Insert_meal meal cuisine price difficulty),
                                Commit, Release]\<rparr>)"
    using assms by (rule create_meal_ok)
  have new_id: "id_col (inserted_row (meals db) meal cuisine p difficulty) = next_id (meals db)"
    by (simp add: inserted_row_def)
  have cols: "meal_columns (inserted_row (meals db) meal cuisine p difficulty) =
      (next_id (meals db), meal, cuisine, p, difficulty, False)"
    by (simp add: meal_columns_def inserted_row_def)
  have built: "new_Meal (next_id (meals db)) meal cuisine p difficulty =
      Inr \<lparr>id_field = next_id (meals db), meal_field = meal, cuisine_field = cuisine,
           price_field = p, difficulty_field = difficulty\<rparr>"
    using assms(2,3) by (intro new_Meal_valid) simp_all
  have by_id: "fst (get_meal_by_id (next_id (meals db))
        (db\<lparr>meals := meals db @ [inserted_row (meals db) meal cuisine p difficulty],
            events := evs\<rparr>)) =
      Inr \<lparr>id_field = next_id (meals db), meal_field = meal, cuisine_field = cuisine,
           price_field = p, difficulty_field = difficulty\<rparr>" for evs
    by (simp add: get_meal_by_id_def conn_defs select_by_id_def filter_id_after_insert
        cols built del: filter_append)
  have by_name: "fst (get_meal_by_name meal
        (db\<lparr>meals := meals db @ [inserted_row (meals db) meal cuisine p difficulty],
            events := evs\<rparr>)) =
      Inr \<lparr>id_field = next_id (meals db), meal_field = meal, cuisine_field = cuisine,
           price_field = p, difficulty_field = difficulty\<rparr>" for evs
    by (simp add: get_meal_by_name_def conn_defs select_by_name_def
        filter_name_after_insert [OF assms(4)] cols built del: filter_append)
  show ?thesis
    by (simp add: created new_id by_id by_name)
qed

text \<open>On the sample data: ``Kebab'' gets the id 4 and is found under 4 and under its name.\<close>

theorem create_then_get_witness:
  "fst (create_meal ''Kebab'' ''Turkish'' (PyFloat 7.5) ''LOW'' sample_database) = Inr ()
   \<and> id_col (last (meals (snd (create_meal ''Kebab'' ''Turkish'' (PyFloat 7.5) ''LOW''
        sample_database)))) = 4
   \<and> fst (get_meal_by_id 4
        (snd (create_meal ''Kebab'' ''Turkish'' (PyFloat 7.5) ''LOW'' sample_database))) =
       Inr \<lparr>id_field = 4, meal_field = ''Kebab'', cuisine_field = ''Turkish'',
            price_field = 7.5, difficulty_field = ''LOW''\<rparr>
   \<and> fst (get_meal_by_name ''Kebab''
        (snd (create_meal ''Kebab'' ''Turkish'' (PyFloat 7.5) ''LOW'' sample_database))) =
       Inr \<lparr>id_field = 4, meal_field = ''Kebab'', cuisine_field = ''Turkish'',
            price_field = 7.5, difficulty_field = ''LOW''\<rparr>"
proof -
  have h1: "number_of (PyFloat 7.5) = Some 7.5" by simp
  have h2: "(0::real) < 7.5" by simp
  have h3: "''LOW'' \<in> set [''LOW'', ''MED'', ''HIGH'']" by simp
  have h4: "''Kebab'' \<notin> set (map meal_col (meals sample_database))"
    by (simp add: sample_defs)
  have new_id: "id_col (last (meals (snd (create_meal ''Kebab'' ''Turkish'' (PyFloat 7.5) ''LOW''
        sample_database)))) = 4"
    by (simp add: create_meal_def conn_defs inserted_row_def next_id_def sample_defs)
  from create_then_get [OF h1 h2 h3 h4, of "''Turkish''"] new_id show ?thesis
    by simp
qed

subsection \<open>The price check of the class Meal\<close>

text \<open>
  C5 does not hold of the code. \<^verbatim>\<open>__post_init__\<close> tests \<^verbatim>\<open>self.price < 0\<close>, so a
  \<open>Meal\<close> with the price 0 is constructed without an error, although the docstring of
  \<^verbatim>\<open>__post_init__\<close> announces a \<^verbatim>\<open>ValueError\<close> ``if price is not positive'' and the
  message reads ``Price must be a positive value''. \<open>create_meal\<close>, which tests
  \<^verbatim>\<open>price <= 0\<close>, refuses the price 0.
\<close>

theorem meal_accepts_zero_price:
  "new_Meal 1 ''Manti'' ''Turkish'' 0 ''MED'' =
     Inr \<lparr>id_field = 1, meal_field = ''Manti'', cuisine_field = ''Turkish'', price_field = 0,
          difficulty_field = ''MED''\<rparr>
   \<and> fst (create_meal ''Manti'' ''Turkish'' (PyInt 0) ''MED'' empty_database) =
       Inl (Invalid_price (PyInt 0))
   \<and> fst (create_meal ''Manti'' ''Turkish'' (PyFloat 0) ''MED'' empty_database) =
       Inl (Invalid_price (PyFloat 0))"
  by (simp add: new_Meal_def post_init_def create_meal_def)

subsection \<open>The leaderboard query\<close>

lemma fetch_leaderboard_eq:
  "fetch_leaderboard ord db =
     (Inr (map entry_of_row (select_leaderboard ord (meals db))),
      db\<lparr>events := events db @ [Acquire, Execute (Select_leaderboard ord), Release]\<rparr>)"
  by (simp add: fetch_leaderboard_def conn_defs)

subsection \<open>Rounding\<close>

lemma round_half_even_close: "\<bar>real_of_int (round_half_even y) - y\<bar> \<le> 1 / 2"
proof -
  have "real_of_int \<lfloor>y\<rfloor> \<le> y" and "y < real_of_int \<lfloor>y\<rfloor> + 1"
    by linarith+
  then show ?thesis
    by (auto simp: round_half_even_def Let_def)
qed

text \<open>
  \<open>round1 x\<close> is the double of a multiple of one tenth that is no further than one
  twentieth from \<open>x\<close>.
\<close>

lemma round1_nearest_tenth:
  "\<exists>k::int. round1 x = to_double (real_of_int k / 10) \<and> \<bar>real_of_int k / 10 - x\<bar> \<le> 1 / 20"
proof -
  have "\<bar>real_of_int (round_half_even (x * 10)) / 10 - x\<bar> \<le> 1 / 20"
    using round_half_even_close [of "x * 10"] by (simp add: field_simps)
  then show ?thesis unfolding round1_def by blast
qed

subsection \<open>The error of rounding to a double\<close>

text \<open>\<open>binary_exponent\<close> is the exponent it is meant to be.\<close>

lemma pow2_binary_exponent:
  assumes "0 < a"
  shows "2 powi (binary_exponent a) \<le> a"
proof (cases "1 \<le> a")
  case True
  define n where "n = nat \<lfloor>a\<rfloor>"
  from True have n: "0 < n" by (simp add: n_def)
  then have "floorlog 2 n \<noteq> 0" by (simp add: floorlog_eq_zero_iff)
  then have e: "binary_exponent a = int (floorlog 2 n - 1)"
    using True by (simp add: binary_exponent_def n_def)
  have "2 ^ (floorlog 2 n - 1) \<le> n"
    using floorlog_bounds [of n 2] n by simp
  then have "(2::real) ^ (floorlog 2 n - 1) \<le> real n"
    by (metis of_nat_le_iff of_nat_numeral of_nat_power)
  also have "real n \<le> a"
    using True by (simp add: n_def)
  finally show ?thesis by (simp add: e)
next
  case False
  define m where "m = nat (\<lceil>1 / a\<rceil> - 1)"
  from False assms have "1 < 1 / a" by simp
  then have c: "2 \<le> \<lceil>1 / a\<rceil>" by linarith
  then have m: "0 < m" by (simp add: m_def)
  have e: "binary_exponent a = - int (floorlog 2 m)"
    using False by (simp add: binary_exponent_def m_def)
  have "m < 2 ^ floorlog 2 m"
    using floorlog_bounds [of m 2] m by simp
  then have "m + 1 \<le> 2 ^ floorlog 2 m" by simp
  then have "real (m + 1) \<le> 2 ^ floorlog 2 m"
    by (metis of_nat_le_iff of_nat_numeral of_nat_power)
  moreover have "1 / a \<le> real (m + 1)"
    using c by (simp add: m_def) linarith
  ultimately have "1 / a \<le> 2 ^ floorlog 2 m" by linarith
  then have "1 / 2 ^ floorlog 2 m \<le> a"
    using assms by (simp add: field_simps)
  then show ?thesis
    by (simp add: e power_int_minus field_simps)
qed

lemma binary_exponent_upper:
  assumes "0 < a"
  shows "a < 2 powi (binary_exponent a + 1)"
proof (cases "1 \<le> a")
  case True
  define n where "n = nat \<lfloor>a\<rfloor>"
  from True have n: "0 < n" by (simp add: n_def)
  have e: "binary_exponent a + 1 = int (floorlog 2 n)"
    using True by (simp add: binary_exponent_def n_def)
  have "n < 2 ^ floorlog 2 n"
    using floorlog_bounds [of n 2] n by simp
  then have "n + 1 \<le> 2 ^ floorlog 2 n" by simp
  then have "real (n + 1) \<le> 2 ^ floorlog 2 n"
    by (metis of_nat_le_iff of_nat_numeral of_nat_power)
  moreover have "a < real (n + 1)"
    using True by (simp add: n_def) linarith
  ultimately show ?thesis by (simp add: e)
next
  case False
  define m where "m = nat (\<lceil>1 / a\<rceil> - 1)"
  from False assms have "1 < 1 / a" by simp
  then have c: "2 \<le> \<lceil>1 / a\<rceil>" by linarith
  then have m: "0 < m" by (simp add: m_def)
  then have f: "floorlog 2 m \<noteq> 0" by (simp add: floorlog_eq_zero_iff)
  have e: "binary_exponent a + 1 = - int (floorlog 2 m - 1)"
    using False f by (simp add: binary_exponent_def m_def)
  have "2 ^ (floorlog 2 m - 1) \<le> m"
    using floorlog_bounds [of m 2] m by simp
  then have "(2::real) ^ (floorlog 2 m - 1) \<le> real m"
    by (metis of_nat_le_iff of_nat_numeral of_nat_power)
  moreover have "real m < 1 / a"
    using c by (simp add: m_def) linarith
  ultimately have "2 ^ (floorlog 2 m - 1) < 1 / a" by linarith
  then have "a < 1 / 2 ^ (floorlog 2 m - 1)"
    using assms by (simp add: field_simps)
  then show ?thesis
    unfolding e by (simp add: power_int_minus field_simps)
qed

lemma ulp_powi: "ulp x = 2 powi (binary_exponent \<bar>x\<bar> - 52)"
  by (simp add: ulp_def Let_def power_int_def field_simps)

lemma ulp_pos: "0 < ulp x"
  by (simp add: ulp_powi)

lemma ulp_le:
  assumes "x \<noteq> 0"
  shows "ulp x \<le> \<bar>x\<bar> / 2 ^ 52"
proof -
  have "ulp x = 2 powi (binary_exponent \<bar>x\<bar>) / 2 ^ 52"
    by (simp add: ulp_powi power_int_diff)
  also have "\<dots> \<le> \<bar>x\<bar> / 2 ^ 52"
    using pow2_binary_exponent [of "\<bar>x\<bar>"] assms by (simp add: divide_right_mono)
  finally show ?thesis .
qed

lemma to_double_error: "\<bar>to_double x - x\<bar> \<le> \<bar>x\<bar> / 2 ^ 53"
proof (cases "x = 0")
  case True
  then show ?thesis by (simp add: to_double_def)
next
  case False
  define u where "u = ulp x"
  define r where "r = real_of_int (round_half_even (x / u))"
  have u: "0 < u" unfolding u_def by (rule ulp_pos)
  have "to_double x - x = (r - x / u) * u"
    using u False by (simp add: to_double_def r_def u_def left_diff_distrib)
  then have "\<bar>to_double x - x\<bar> = \<bar>r - x / u\<bar> * u"
    using u by (simp add: abs_mult)
  also have "\<dots> \<le> 1 / 2 * u"
    using round_half_even_close [of "x / u"] u
    unfolding r_def by (intro mult_right_mono) simp_all
  also have "\<dots> \<le> 1 / 2 * (\<bar>x\<bar> / 2 ^ 52)"
    using ulp_le [OF False] by (simp add: u_def)
  finally show ?thesis by simp
qed

lemma to_double_bounds:
  assumes "0 \<le> x"
  shows "x * (1 - 1 / 2 ^ 53) \<le> to_double x" and "to_double x \<le> x * (1 + 1 / 2 ^ 53)"
proof -
  define y where "y = x / 2 ^ 53"
  have "\<bar>to_double x - x\<bar> \<le> y"
    using to_double_error [of x] assms by (simp add: y_def)
  then have "x - y \<le> to_double x" and "to_double x \<le> x + y"
    by linarith+
  moreover have "x * (1 - 1 / 2 ^ 53) = x - y" and "x * (1 + 1 / 2 ^ 53) = x + y"
    by (simp_all add: y_def algebra_simps)
  ultimately show "x * (1 - 1 / 2 ^ 53) \<le> to_double x"
    and "to_double x \<le> x * (1 + 1 / 2 ^ 53)"
    by simp_all
qed

lemma double_of_int_100: "double_of_int 100 = 100"
  by code_simp

lemma rounding_factors:
  "1 - 1 / 2 ^ 50 \<le> (1 - 1 / 2 ^ 53) ^ 4 / (1 + 1 / 2 ^ 53 :: real)"
  "(1 + 1 / 2 ^ 53) ^ 4 / (1 - 1 / 2 ^ 53) \<le> (1 + 1 / 2 ^ 50 :: real)"
  by code_simp+

text \<open>
  Five roundings lie between the exact percentage and the double that \<^verbatim>\<open>round\<close>
  receives: two conversions, the product with \<^verbatim>\<open>1.0\<close>, the quotient and the product
  with 100.
\<close>

lemma double_percentage_bounds:
  assumes w: "0 \<le> w" and b: "0 < b"
  defines "p \<equiv> 100 * (real_of_int w / real_of_int b)"
  defines "x \<equiv> double_mul (sql_win_pct w b) (double_of_int 100)"
  shows "p * (1 - 1 / 2 ^ 50) \<le> x" and "x \<le> p * (1 + 1 / 2 ^ 50)"
proof -
  define lo hi :: real where "lo = 1 - 1 / 2 ^ 53" and "hi = 1 + 1 / 2 ^ 53"
  have lo: "0 < lo" and hi: "0 < hi" by (simp_all add: lo_def hi_def)
  define W B where "W = real_of_int w" and "B = real_of_int b"
  have W: "0 \<le> W" and B: "0 < B" using w b by (simp_all add: W_def B_def)
  define a where "a = double_of_int w"
  define a1 where "a1 = double_mul a 1.0"
  define d where "d = double_of_int b"
  define t where "t = a1 / d"
  define q where "q = to_double t"
  have a: "W * lo \<le> a" "a \<le> W * hi"
    using to_double_bounds [OF W] by (simp_all add: a_def double_of_int_def W_def lo_def hi_def)
  have a0: "0 \<le> a" using a(1) W lo by (meson mult_nonneg_nonneg less_imp_le order_trans)
  have a1: "a * lo \<le> a1" "a1 \<le> a * hi"
    using to_double_bounds [OF a0] by (simp_all add: a1_def double_mul_def lo_def hi_def)
  have a1_lo: "W * lo * lo \<le> a1"
    using a(1) a1(1) lo by (meson mult_right_mono less_imp_le order_trans)
  have a1_hi: "a1 \<le> W * hi * hi"
    using a(2) a1(2) hi by (meson mult_right_mono less_imp_le order_trans)
  have a1_0: "0 \<le> a1"
    using a1_lo W lo by (meson mult_nonneg_nonneg less_imp_le order_trans)
  have d: "B * lo \<le> d" "d \<le> B * hi"
    using to_double_bounds [of B] B
    by (simp_all add: d_def double_of_int_def B_def lo_def hi_def)
  have d0: "0 < d" using d(1) B lo by (meson mult_pos_pos less_le_trans)
  have t_lo: "W * lo * lo / (B * hi) \<le> t"
    unfolding t_def using a1_0 a1_lo d0 d(2) by (intro frac_le) simp_all
  have t_hi: "t \<le> W * hi * hi / (B * lo)"
    unfolding t_def using W hi a1_hi B lo d(1) by (intro frac_le) simp_all
  have t0: "0 \<le> t" unfolding t_def using a1_0 d0 by simp
  have q: "t * lo \<le> q" "q \<le> t * hi"
    using to_double_bounds [OF t0] by (simp_all add: q_def lo_def hi_def)
  have q_lo: "W * lo * lo / (B * hi) * lo \<le> q"
    using t_lo q(1) lo by (meson mult_right_mono less_imp_le order_trans)
  have q_hi: "q \<le> W * hi * hi / (B * lo) * hi"
    using t_hi q(2) hi by (meson mult_right_mono less_imp_le order_trans)
  have q0: "0 \<le> q" using q(1) t0 lo by (meson mult_nonneg_nonneg less_imp_le order_trans)
  have x_eq: "x = to_double (q * 100)"
    by (simp add: x_def double_mul_def double_of_int_100 q_def t_def a1_def a_def d_def
        sql_win_pct_def double_div_def)
  have q100: "0 \<le> q * 100" using q0 by simp
  have x: "q * 100 * lo \<le> x" "x \<le> q * 100 * hi"
    using to_double_bounds [OF q100] by (simp_all add: x_eq lo_def hi_def)
  have "W * lo * lo / (B * hi) * lo * (100 * lo) \<le> q * (100 * lo)"
    using q_lo lo by (intro mult_right_mono) simp_all
  then have x_lo: "W * lo * lo / (B * hi) * lo * (100 * lo) \<le> x"
    using x(1) by (simp add: mult.assoc)
  have "q * (100 * hi) \<le> W * hi * hi / (B * lo) * hi * (100 * hi)"
    using q_hi hi by (intro mult_right_mono) simp_all
  then have x_hi: "x \<le> W * hi * hi / (B * lo) * hi * (100 * hi)"
    using x(2) by (simp add: mult.assoc)
  have p0: "0 \<le> p" using W B by (simp add: p_def W_def B_def)
  have "W * lo * lo / (B * hi) * lo * (100 * lo) = p * (lo ^ 4 / hi)"
    using B hi by (simp add: p_def W_def B_def power4_eq_xxxx field_simps)
  moreover have "p * (1 - 1 / 2 ^ 50) \<le> p * (lo ^ 4 / hi)"
    using rounding_factors(1) p0 unfolding lo_def hi_def by (intro mult_left_mono)
  ultimately show "p * (1 - 1 / 2 ^ 50) \<le> x" using x_lo by linarith
  have "W * hi * hi / (B * lo) * hi * (100 * hi) = p * (hi ^ 4 / lo)"
    using B lo by (simp add: p_def W_def B_def power4_eq_xxxx field_simps)
  moreover have "p * (hi ^ 4 / lo) \<le> p * (1 + 1 / 2 ^ 50)"
    using rounding_factors(2) p0 unfolding lo_def hi_def by (intro mult_left_mono)
  ultimately show "x \<le> p * (1 + 1 / 2 ^ 50)" using x_hi by linarith
qed

subsection \<open>The rows of the leaderboard query and its entries\<close>

lemma mset_select_leaderboard:
  "mset (select_leaderboard ord rows) =
   image_mset leaderboard_columns
     (mset (filter (\<lambda>r. deleted_col r = False \<and> battles_col r > 0) rows))"
  by (simp add: select_leaderboard_def)

lemma set_select_leaderboard:
  "set (select_leaderboard ord rows) =
   leaderboard_columns ` {r \<in> set rows. deleted_col r = False \<and> battles_col r > 0}"
  by (simp add: select_leaderboard_def)

lemma sorted_select_leaderboard:
  "sorted_wrt (\<lambda>a b. order_column ord b \<le> order_column ord a) (select_leaderboard ord rows)"
proof -
  have "sorted (map (\<lambda>t. - order_column ord t) (select_leaderboard ord rows))"
    unfolding select_leaderboard_def by (rule sorted_sort_key)
  then show ?thesis by (simp add: sorted_map)
qed

lemma entry_of_columns:
  "entry_of_row (leaderboard_columns r) =
     \<lparr>entry_id = id_col r, entry_meal = meal_col r, entry_cuisine = cuisine_col r,
      entry_price = price_col r, entry_difficulty = difficulty_col r,
      entry_battles = battles_col r, entry_wins = wins_col r,
      entry_win_pct =
        round1 (double_mul (sql_win_pct (wins_col r) (battles_col r)) (double_of_int 100))\<rparr>"
  by (simp add: leaderboard_columns_def)

lemma order_column_wins:
  "order_column By_wins (leaderboard_columns r) =
   real_of_int (entry_wins (entry_of_row (leaderboard_columns r)))"
  by (simp add: leaderboard_columns_def)

lemma order_column_win_pct:
  "order_column By_win_pct (leaderboard_columns r) =
   sql_win_pct (entry_wins (entry_of_row (leaderboard_columns r)))
     (entry_battles (entry_of_row (leaderboard_columns r)))"
  by (simp add: leaderboard_columns_def)

lemma leaderboard_by_wins:
  "sorted_wrt (\<lambda>a b. entry_wins b \<le> entry_wins a)
     (map entry_of_row (select_leaderboard By_wins rows))"
proof -
  have "sorted_wrt (\<lambda>a b. entry_wins (entry_of_row b) \<le> entry_wins (entry_of_row a))
      (select_leaderboard By_wins rows)"
    using sorted_select_leaderboard [of By_wins rows]
    by (rule sorted_wrt_mono_rel [rotated])
      (auto simp: set_select_leaderboard order_column_wins)
  then show ?thesis by (simp add: sorted_wrt_map)
qed

lemma leaderboard_by_win_pct:
  "sorted_wrt (\<lambda>a b. sql_win_pct (entry_wins b) (entry_battles b)
                  \<le> sql_win_pct (entry_wins a) (entry_battles a))
     (map entry_of_row (select_leaderboard By_win_pct rows))"
proof -
  have "sorted_wrt (\<lambda>a b. sql_win_pct (entry_wins (entry_of_row b))
                            (entry_battles (entry_of_row b))
                       \<le> sql_win_pct (entry_wins (entry_of_row a))
                            (entry_battles (entry_of_row a)))
      (select_leaderboard By_win_pct rows)"
    using sorted_select_leaderboard [of By_win_pct rows]
    by (rule sorted_wrt_mono_rel [rotated])
      (auto simp: set_select_leaderboard order_column_win_pct)
  then show ?thesis by (simp add: sorted_wrt_map)
qed

lemma leaderboard_win_pct_rounded:
  assumes "e \<in> set (map entry_of_row (select_leaderboard ord rows))"
  shows "\<exists>k::int. entry_win_pct e = to_double (real_of_int k / 10)
       \<and> \<bar>real_of_int k / 10
            - double_mul (sql_win_pct (entry_wins e) (entry_battles e)) (double_of_int 100)\<bar>
           \<le> 1 / 20"
proof -
  from assms obtain r where e: "e = entry_of_row (leaderboard_columns r)"
    by (auto simp: set_select_leaderboard)
  show ?thesis
    unfolding e entry_of_columns leaderboard_entry.select_convs
    by (rule round1_nearest_tenth)
qed

lemma leaderboard_win_pct_exact:
  assumes "e \<in> set (map entry_of_row (select_leaderboard ord rows))"
    and "0 \<le> entry_wins e"
  shows "\<bar>double_mul (sql_win_pct (entry_wins e) (entry_battles e)) (double_of_int 100)
          - 100 * (real_of_int (entry_wins e) / real_of_int (entry_battles e))\<bar>
         \<le> 100 * (real_of_int (entry_wins e) / real_of_int (entry_battles e)) / 2 ^ 50"
proof -
  from assms(1) obtain r where e: "e = entry_of_row (leaderboard_columns r)"
    and b: "0 < battles_col r"
    by (auto simp: set_select_leaderboard)
  from assms(2) have w: "0 \<le> wins_col r"
    by (simp add: e entry_of_columns)
  define p where "p = 100 * (real_of_int (wins_col r) / real_of_int (battles_col r))"
  define x where "x = double_mul (sql_win_pct (wins_col r) (battles_col r)) (double_of_int 100)"
  define d where "d = p / 2 ^ 50"
  have "p * (1 - 1 / 2 ^ 50) \<le> x" and "x \<le> p * (1 + 1 / 2 ^ 50)"
    unfolding p_def x_def using w b by (rule double_percentage_bounds)+
  then have "p - d \<le> x" and "x \<le> p + d"
    by (simp_all add: d_def algebra_simps)
  then have "\<bar>x - p\<bar> \<le> d"
    by linarith
  then have "\<bar>x - p\<bar> \<le> p / 2 ^ 50"
    by (simp only: d_def)
  then show ?thesis
    unfolding e entry_of_columns leaderboard_entry.select_convs p_def x_def .
qed

subsection \<open>The leaderboard\<close>

text \<open>
  C2, as stated, fails where it says that \<open>win_pct\<close> is the percentage rounded to one
  decimal place. A meal with 23 wins in 80 battles has the percentage 28.75, which
  rounds to 28.8 (half up, and half to even alike). The code divides, multiplies and
  rounds in double precision: the quotient is a double below 0.2875, its product with 100
  is a double below 28.75, and \<^verbatim>\<open>round\<close> returns the double nearest to 28.7, which is
  more than 0.05 away from the percentage.
\<close>

theorem get_leaderboard_win_pct_counterexample:
  "fst (get_leaderboard ''win_pct'' borek_database) =
     Inr [\<lparr>entry_id = 5, entry_meal = ''Borek'', entry_cuisine = ''Turkish'',
           entry_price = 6.5, entry_difficulty = ''LOW'', entry_battles = 80,
           entry_wins = 23, entry_win_pct = 8078331831595827 / 2 ^ 48\<rparr>]
   \<and> 100 * (real_of_int 23 / real_of_int 80) = 28.75
   \<and> real_of_int (round_half_even (28.75 * 10)) / 10 = 28.8
   \<and> (8078331831595827 / 2 ^ 48 :: real) < 28.7
   \<and> 1 / 20 < \<bar>8078331831595827 / 2 ^ 48 - (28.75 :: real)\<bar>"
proof -
  have pct: "round1 (double_mul (sql_win_pct 23 80) (double_of_int 100)) =
      8078331831595827 / 2 ^ 48"
    by code_simp
  have "fst (get_leaderboard ''win_pct'' borek_database) =
     Inr [\<lparr>entry_id = 5, entry_meal = ''Borek'', entry_cuisine = ''Turkish'',
           entry_price = 6.5, entry_difficulty = ''LOW'', entry_battles = 80,
           entry_wins = 23,
           entry_win_pct = round1 (double_mul (sql_win_pct 23 80) (double_of_int 100))\<rparr>]"
    by (simp add: get_leaderboard_def fetch_leaderboard_eq select_leaderboard_def
        leaderboard_columns_def borek_database_def borek_def)
  moreover have "real_of_int (round_half_even (28.75 * 10)) / 10 = 28.8"
    by (simp add: round_half_even_def)
  ultimately show ?thesis unfolding pct by simp
qed

text \<open>
  C2, amended. For \<open>sort_by\<close> equal to \<open>''wins''\<close> or to \<open>''win_pct''\<close>,
  \<open>get_leaderboard\<close> returns a list of entries such that
  \<^item> the entries are, with multiplicity, those of the rows of the table that are not
    deleted and have \<open>battles > 0\<close>, each row giving the entry with its id, name, cuisine,
    price, difficulty, battles and wins, and with \<open>win_pct\<close> the value of
    \<^verbatim>\<open>round(wins * 1.0 / battles * 100, 1)\<close> in double precision;
  \<^item> for \<open>''wins''\<close> the list is in descending order of wins, for \<open>''win_pct''\<close> in
    descending order of the double \<^verbatim>\<open>wins * 1.0 / battles\<close>;
  \<^item> the \<open>win_pct\<close> of every entry is the double nearest to a multiple of one tenth, and
    that multiple is no further than one twentieth from the double
    \<^verbatim>\<open>wins * 1.0 / battles * 100\<close>;
  \<^item> when the wins of an entry are not negative, that double differs from the exact
    percentage 100 * wins / battles by at most the \<open>2 ^ 50\<close>-th part of the percentage.
\<close>

theorem get_leaderboard_entries:
  assumes "sort_by = ''wins'' \<or> sort_by = ''win_pct''"
  shows "\<exists>es. fst (get_leaderboard sort_by db) = Inr es
       \<and> mset es =
           image_mset
             (\<lambda>r. \<lparr>entry_id = id_col r, entry_meal = meal_col r, entry_cuisine = cuisine_col r,
                   entry_price = price_col r, entry_difficulty = difficulty_col r,
                   entry_battles = battles_col r, entry_wins = wins_col r,
                   entry_win_pct =
                     round1 (double_mul (sql_win_pct (wins_col r) (battles_col r))
                               (double_of_int 100))\<rparr>)
             (mset (filter (\<lambda>r. deleted_col r = False \<and> battles_col r > 0) (meals db)))
       \<and> (sort_by = ''wins'' \<longrightarrow> sorted_wrt (\<lambda>a b. entry_wins b \<le> entry_wins a) es)
       \<and> (sort_by = ''win_pct'' \<longrightarrow>
            sorted_wrt (\<lambda>a b. sql_win_pct (entry_wins b) (entry_battles b)
                            \<le> sql_win_pct (entry_wins a) (entry_battles a)) es)
       \<and> (\<forall>e\<in>set es. \<exists>k::int.
            entry_win_pct e = to_double (real_of_int k / 10)
            \<and> \<bar>real_of_int k / 10
                 - double_mul (sql_win_pct (entry_wins e) (entry_battles e)) (double_of_int 100)\<bar>
                \<le> 1 / 20)
       \<and> (\<forall>e\<in>set es. 0 \<le> entry_wins e \<longrightarrow>
            \<bar>double_mul (sql_win_pct (entry_wins e) (entry_battles e)) (double_of_int 100)
               - 100 * (real_of_int (entry_wins e) / real_of_int (entry_battles e))\<bar>
              \<le> 100 * (real_of_int (entry_wins e) / real_of_int (entry_battles e)) / 2 ^ 50)"
proof -
  define ord where "ord = (if sort_by = ''win_pct'' then By_win_pct else By_wins)"
  define es where "es = map entry_of_row (select_leaderboard ord (meals db))"
  have res: "fst (get_leaderboard sort_by db) = Inr es"
    using assms by (auto simp: get_leaderboard_def fetch_leaderboard_eq ord_def es_def)
  have sel: "mset es =
      image_mset (\<lambda>r. entry_of_row (leaderboard_columns r))
        (mset (filter (\<lambda>r. deleted_col r = False \<and> battles_col r > 0) (meals db)))"
    by (simp add: es_def mset_select_leaderboard multiset.map_comp comp_def)
  have by_wins: "sorted_wrt (\<lambda>a b. entry_wins b \<le> entry_wins a) es" if "sort_by = ''wins''"
    using that leaderboard_by_wins [of "meals db"] by (simp add: es_def ord_def)
  have by_pct: "sorted_wrt (\<lambda>a b. sql_win_pct (entry_wins b) (entry_battles b)
                            \<le> sql_win_pct (entry_wins a) (entry_battles a)) es"
    if "sort_by = ''win_pct''"
    using that leaderboard_by_win_pct [of "meals db"] by (simp add: es_def ord_def)
  have rounded: "\<forall>e\<in>set es. \<exists>k::int.
      entry_win_pct e = to_double (real_of_int k / 10)
      \<and> \<bar>real_of_int k / 10
           - double_mul (sql_win_pct (entry_wins e) (entry_battles e)) (double_of_int 100)\<bar>
          \<le> 1 / 20"
    unfolding es_def using leaderboard_win_pct_rounded by blast
  have exact: "\<forall>e\<in>set es. 0 \<le> entry_wins e \<longrightarrow>
      \<bar>double_mul (sql_win_pct (entry_wins e) (entry_battles e)) (double_of_int 100)
         - 100 * (real_of_int (entry_wins e) / real_of_int (entry_battles e))\<bar>
        \<le> 100 * (real_of_int (entry_wins e) / real_of_int (entry_battles e)) / 2 ^ 50"
    unfolding es_def using leaderboard_win_pct_exact by blast
  from res sel by_wins by_pct rounded exact show ?thesis
    unfolding entry_of_columns by blast
qed

text \<open>
  On the leaderboard table: Ramen has no battles and Pizza is deleted, Manti (8 of 10,
  ratio 0.8) comes before Sushi Roll (6 of 8) in both orders, with 80.0 and 75.0.
\<close>

theorem get_leaderboard_entries_witness:
  "fst (get_leaderboard ''win_pct'' leaderboard_database) =
     Inr [\<lparr>entry_id = 1, entry_meal = ''Manti'', entry_cuisine = ''Turkish'',
           entry_price = 12.99, entry_difficulty = ''MED'', entry_battles = 10,
           entry_wins = 8, entry_win_pct = 80.0\<rparr>,
          \<lparr>entry_id = 2, entry_meal = ''Sushi Roll'', entry_cuisine = ''Japanese'',
           entry_price = 15.99, entry_difficulty = ''HIGH'', entry_battles = 8,
           entry_wins = 6, entry_win_pct = 75.0\<rparr>]
   \<and> fst (get_leaderboard ''wins'' leaderboard_database) =
     Inr [\<lparr>entry_id = 1, entry_meal = ''Manti'', entry_cuisine = ''Turkish'',
           entry_price = 12.99, entry_difficulty = ''MED'', entry_battles = 10,
           entry_wins = 8, entry_win_pct = 80.0\<rparr>,
          \<lparr>entry_id = 2, entry_meal = ''Sushi Roll'', entry_cuisine = ''Japanese'',
           entry_price = 15.99, entry_difficulty = ''HIGH'', entry_battles = 8,
           entry_wins = 6, entry_win_pct = 75.0\<rparr>]"
proof -
  have h1: "''win_pct'' = ''wins'' \<or> ''win_pct'' = ''win_pct''"
    and h2: "''wins'' = ''wins'' \<or> ''wins'' = ''win_pct''"
    by simp_all
  have cmp: "sql_win_pct 6 8 \<le> sql_win_pct 8 10" "\<not> sql_win_pct 8 10 \<le> sql_win_pct 6 8"
    by code_simp+
  have pct: "round1 (double_mul (sql_win_pct 8 10) (double_of_int 100)) = 80"
    "round1 (double_mul (sql_win_pct 6 8) (double_of_int 100)) = 75"
    by code_simp+
  from get_leaderboard_entries [OF h1, of leaderboard_database]
    get_leaderboard_entries [OF h2, of leaderboard_database]
  show ?thesis
    by (simp add: get_leaderboard_def fetch_leaderboard_eq select_leaderboard_def
        leaderboard_columns_def leaderboard_database_def ramen_def sample_defs cmp pct)
qed

subsection \<open>What a call can do to the table\<close>

lemma meals_create_meal:
  "meals (snd (create_meal m c price d db)) = meals db
   \<or> (\<exists>p. meals (snd (create_meal m c price d db)) = meals db @ [inserted_row (meals db) m c p d])"
  by (auto simp: create_meal_def conn_defs split: option.splits)

lemma meals_delete_meal:
  "meals (snd (delete_meal i db)) = meals db
   \<or> meals (snd (delete_meal i db)) = update_deleted i (meals db)"
  by (auto simp: delete_meal_def conn_defs split: option.splits)

lemma meals_update_meal_stats:
  "meals (snd (update_meal_stats i result db)) = meals db
   \<or> meals (snd (update_meal_stats i result db)) = update_win i (meals db)
   \<or> meals (snd (update_meal_stats i result db)) = update_loss i (meals db)"
  by (auto simp: update_meal_stats_def conn_defs split: option.splits)

lemma meals_get_leaderboard: "meals (snd (get_leaderboard s db)) = meals db"
  by (simp add: get_leaderboard_def fetch_leaderboard_eq)

lemma meals_get_meal_by_id: "meals (snd (get_meal_by_id i db)) = meals db"
  by (auto simp: get_meal_by_id_def conn_defs split: option.splits)

lemma meals_get_meal_by_name: "meals (snd (get_meal_by_name n db)) = meals db"
  by (auto simp: get_meal_by_name_def conn_defs split: option.splits)


lemma update_win_counters:
  "\<forall>r\<in>set rows. 0 \<le> battles_col r \<and> 0 \<le> wins_col r \<and> wins_col r \<le> battles_col r \<Longrightarrow>
   \<forall>r\<in>set (update_win i rows).
     0 \<le> battles_col r \<and> 0 \<le> wins_col r \<and> wins_col r \<le> battles_col r"
  by (induction rows) (simp_all add: update_win_def)

lemma update_loss_counters:
  "\<forall>r\<in>set rows. 0 \<le> battles_col r \<and> 0 \<le> wins_col r \<and> wins_col r \<le> battles_col r \<Longrightarrow>
   \<forall>r\<in>set (update_loss i rows).
     0 \<le> battles_col r \<and> 0 \<le> wins_col r \<and> wins_col r \<le> battles_col r"
  by (induction rows) (simp_all add: update_loss_def)

lemma update_deleted_counters:
  "\<forall>r\<in>set rows. 0 \<le> battles_col r \<and> 0 \<le> wins_col r \<and> wins_col r \<le> battles_col r \<Longrightarrow>
   \<forall>r\<in>set (update_deleted i rows).
     0 \<le> battles_col r \<and> 0 \<le> wins_col r \<and> wins_col r \<le> battles_col r"
  by (induction rows) (simp_all add: update_deleted_def)

lemma insert_counters:
  "\<forall>r\<in>set rows. 0 \<le> battles_col r \<and> 0 \<le> wins_col r \<and> wins_col r \<le> battles_col r \<Longrightarrow>
   \<forall>r\<in>set (rows @ [inserted_row rows m c p d]).
     0 \<le> battles_col r \<and> 0 \<le> wins_col r \<and> wins_col r \<le> battles_col r"
  by (simp add: inserted_row_def)


lemma after_call_counters:
  assumes "\<forall>r\<in>set (meals db). 0 \<le> battles_col r \<and> 0 \<le> wins_col r \<and> wins_col r \<le> battles_col r"
  shows "\<forall>r\<in>set (meals (after_call db c)).
           0 \<le> battles_col r \<and> 0 \<le> wins_col r \<and> wins_col r \<le> battles_col r"
proof (cases c)
  case (Create_meal m cu p d)
  from meals_create_meal [of m cu p d db] show ?thesis
  proof
    assume "meals (snd (create_meal m cu p d db)) = meals db"
    then show ?thesis unfolding Create_meal after_call.simps using assms by (simp only:)
  next
    assume "\<exists>x. meals (snd (create_meal m cu p d db)) =
        meals db @ [inserted_row (meals db) m cu x d]"
    then obtain x where "meals (snd (create_meal m cu p d db)) =
        meals db @ [inserted_row (meals db) m cu x d]" ..
    then show ?thesis unfolding Create_meal after_call.simps
      using insert_counters [OF assms, of m cu x d] by (simp only:)
  qed
next
  case (Delete_meal i)
  from meals_delete_meal [of i db] show ?thesis
  proof
    assume "meals (snd (delete_meal i db)) = meals db"
    then show ?thesis unfolding Delete_meal after_call.simps using assms by (simp only:)
  next
    assume "meals (snd (delete_meal i db)) = update_deleted i (meals db)"
    then show ?thesis unfolding Delete_meal after_call.simps
      using update_deleted_counters [OF assms, of i] by (simp only:)
  qed
next
  case (Get_leaderboard s)
  show ?thesis unfolding Get_leaderboard after_call.simps meals_get_leaderboard
    by (rule assms)
next
  case (Get_meal_by_id i)
  show ?thesis unfolding Get_meal_by_id after_call.simps meals_get_meal_by_id
    by (rule assms)
next
  case (Get_meal_by_name n)
  show ?thesis unfolding Get_meal_by_name after_call.simps meals_get_meal_by_name
    by (rule assms)
next
  case (Update_meal_stats i res)
  from meals_update_meal_stats [of i res db] show ?thesis
  proof (elim disjE)
    assume "meals (snd (update_meal_stats i res db)) = meals db"
    then show ?thesis unfolding Update_meal_stats after_call.simps using assms by (simp only:)
  next
    assume "meals (snd (update_meal_stats i res db)) = update_win i (meals db)"
    then show ?thesis unfolding Update_meal_stats after_call.simps
      using update_win_counters [OF assms, of i] by (simp only:)
  next
    assume "meals (snd (update_meal_stats i res db)) = update_loss i (meals db)"
    then show ?thesis unfolding Update_meal_stats after_call.simps
      using update_loss_counters [OF assms, of i] by (simp only:)
  qed
qed

lemma foldl_after_call_counters:
  "\<forall>r\<in>set (meals db). 0 \<le> battles_col r \<and> 0 \<le> wins_col r \<and> wins_col r \<le> battles_col r \<Longrightarrow>
   \<forall>r\<in>set (meals (foldl after_call db cs)).
     0 \<le> battles_col r \<and> 0 \<le> wins_col r \<and> wins_col r \<le> battles_col r"
proof (induction cs arbitrary: db)
  case Nil
  then show ?case unfolding foldl_Nil .
next
  case (Cons c cs)
  from Cons.prems have "\<forall>r\<in>set (meals (after_call db c)).
      0 \<le> battles_col r \<and> 0 \<le> wins_col r \<and> wins_col r \<le> battles_col r"
    by (rule after_call_counters)
  then have "\<forall>r\<in>set (meals (foldl after_call (after_call db c) cs)).
      0 \<le> battles_col r \<and> 0 \<le> wins_col r \<and> wins_col r \<le> battles_col r"
    by (rule Cons.IH)
  then show ?case unfolding foldl_Cons .
qed

subsection \<open>The counters\<close>

text \<open>
  C9. In the table that any sequence of calls of the six functions leaves, starting from
  the empty database, every row has \<open>battles \<ge> 0\<close>, \<open>wins \<ge> 0\<close> and
  \<open>wins \<le> battles\<close>: an inserted row has both counters 0, and the two updates of
  \<open>update_meal_stats\<close> add one to \<open>battles\<close> or one to both.
\<close>

theorem counters_invariant:
  "\<forall>r\<in>set (meals (after_calls cs)).
     0 \<le> battles_col r \<and> 0 \<le> wins_col r \<and> wins_col r \<le> battles_col r"
  unfolding after_calls_def
  by (rule foldl_after_call_counters) (simp add: empty_database_def)

text \<open>Manti after a win, a loss and a refused ``draw'': 2 battles, 1 win.\<close>

theorem counters_invariant_witness:
  "meals (after_calls
     [Create_meal ''Manti'' ''Turkish'' (PyFloat 12.99) ''MED'',
      Update_meal_stats 1 ''win'', Update_meal_stats 1 ''loss'',
      Update_meal_stats 1 ''draw'']) =
     [\<lparr>id_col = 1, meal_col = ''Manti'', cuisine_col = ''Turkish'', price_col = 12.99,
       difficulty_col = ''MED'', deleted_col = False, battles_col = 2, wins_col = 1\<rparr>]
   \<and> 0 \<le> battles_col (hd (meals (after_calls
          [Create_meal ''Manti'' ''Turkish'' (PyFloat 12.99) ''MED'',
           Update_meal_stats 1 ''win'', Update_meal_stats 1 ''loss'',
           Update_meal_stats 1 ''draw''])))
   \<and> 0 \<le> wins_col (hd (meals (after_calls
          [Create_meal ''Manti'' ''Turkish'' (PyFloat 12.99) ''MED'',
           Update_meal_stats 1 ''win'', Update_meal_stats 1 ''loss'',
           Update_meal_stats 1 ''draw''])))
   \<and> wins_col (hd (meals (after_calls
          [Create_meal ''Manti'' ''Turkish'' (PyFloat 12.99) ''MED'',
           Update_meal_stats 1 ''win'', Update_meal_stats 1 ''loss'',
           Update_meal_stats 1 ''draw''])))
     \<le> battles_col (hd (meals (after_calls
          [Create_meal ''Manti'' ''Turkish'' (PyFloat 12.99) ''MED'',
           Update_meal_stats 1 ''win'', Update_meal_stats 1 ''loss'',
           Update_meal_stats 1 ''draw''])))"
proof -
  have run: "meals (after_calls
     [Create_meal ''Manti'' ''Turkish'' (PyFloat 12.99) ''MED'',
      Update_meal_stats 1 ''win'', Update_meal_stats 1 ''loss'',
      Update_meal_stats 1 ''draw'']) =
     [\<lparr>id_col = 1, meal_col = ''Manti'', cuisine_col = ''Turkish'', price_col = 12.99,
       difficulty_col = ''MED'', deleted_col = False, battles_col = 2, wins_col = 1\<rparr>]"
    by (simp add: after_calls_def empty_database_def create_meal_def update_meal_stats_def
        conn_defs inserted_row_def next_id_def select_deleted_def update_win_def
        update_loss_def)
  from counters_invariant [of "[Create_meal ''Manti'' ''Turkish'' (PyFloat 12.99) ''MED'',
      Update_meal_stats 1 ''win'', Update_meal_stats 1 ''loss'',
      Update_meal_stats 1 ''draw'']"]
  show ?thesis unfolding run by simp
qed

end
